theory Spec2Isabelle
  imports Complex_Main "HOL-Library.Signed_Division" "HOL-Library.Word"
begin

section \<open>Conventions of the embedding\<close>

text \<open>
  The chunked-element engine of \<^verbatim>\<open>hdf/src/hchunks.c\<close> and the SZIP adapter of
  \<^verbatim>\<open>hdf/src/cszip.c\<close> are embedded function by function.

  \<^item> An \<^verbatim>\<open>int32\<close> is a mathematical integer. Signed overflow is undefined behaviour
    in C, so every statement below speaks about runs in which each intermediate value fits
    in 32 bits; the theorems that bound results (chunk numbers below the number of pages,
    offsets below the logical size) show which values those are.
  \<^item> C's \<^verbatim>\<open>/\<close> and \<^verbatim>\<open>%\<close> truncate towards zero: they are \<open>sdiv\<close> and \<open>smod\<close>.
  \<^item> A C array of \<^verbatim>\<open>ndims\<close> entries is a list. A helper returns \<open>None\<close> where the C
    code has undefined behaviour: a division by zero or an index outside the array.
  \<^item> A descending loop \<^verbatim>\<open>for (i = n - 1; i >= 0; i--)\<close> is a recursion on the
    counter \<open>Suc i\<close>; an ascending loop \<^verbatim>\<open>for (j = 0; j < n; j++)\<close> is a \<open>fold\<close>
    over \<open>[0..<n]\<close>.
\<close>

unbundle bit_operations_syntax

type_synonym int32 = int
type_synonym uint16 = "16 word"
type_synonym uint8 = "8 word"

section \<open>Chunk geometry (hchunks.c)\<close>

text \<open>\<^verbatim>\<open>DIM_REC\<close>: one record per dimension of the chunked array.\<close>

record DIM_REC =
  flag :: int32
  dim_length :: int32
  chunk_length :: int32
  distrib_type :: int32
  unlimited :: int32
  last_chunk_length :: int32
  num_chunks :: int32

text \<open>\<^verbatim>\<open>DIM_DEF\<close>: the caller's description of one dimension (\<^verbatim>\<open>chk_array->pdims[i]\<close>).\<close>

record DIM_DEF =
  p_distrib_type :: int32
  p_dim_length :: int32
  p_chunk_length :: int32

text \<open>\<^verbatim>\<open>create_dim_recs\<close>: the initial value of every dimension record.\<close>

definition create_dim_rec :: DIM_REC where
  "create_dim_rec =
     \<lparr>flag = 0, dim_length = 0, chunk_length = 0, distrib_type = 0, unlimited = 0,
      last_chunk_length = 0, num_chunks = 0\<rparr>"

text \<open>
  \<^verbatim>\<open>update_chunk_indices_seek\<close>: from a byte position in the element to the chunk
  indices \<open>sbi\<close> and the position inside the chunk \<open>spb\<close>.
\<close>

fun update_chunk_indices_seek_loop ::
  "DIM_REC list \<Rightarrow> nat \<Rightarrow> int32 \<Rightarrow> int32 list \<Rightarrow> int32 list \<Rightarrow> (int32 list \<times> int32 list) option"
where
  "update_chunk_indices_seek_loop ddims 0 stmp sbi spb = Some (sbi, spb)"
| "update_chunk_indices_seek_loop ddims (Suc i) stmp sbi spb =
     (if dim_length (ddims ! i) = 0 \<or> chunk_length (ddims ! i) = 0 then None
      else update_chunk_indices_seek_loop ddims i (stmp sdiv dim_length (ddims ! i))
             (sbi[i := (stmp smod dim_length (ddims ! i)) sdiv chunk_length (ddims ! i)])
             (spb[i := (stmp smod dim_length (ddims ! i)) smod chunk_length (ddims ! i)]))"

definition update_chunk_indices_seek ::
  "int32 \<Rightarrow> int32 \<Rightarrow> int32 \<Rightarrow> int32 list \<Rightarrow> int32 list \<Rightarrow> DIM_REC list
     \<Rightarrow> (int32 list \<times> int32 list) option"
where
  "update_chunk_indices_seek sloc ndims nt_size sbi spb ddims =
     (if nt_size = 0 \<or> int (length sbi) < ndims \<or> int (length spb) < ndims
         \<or> int (length ddims) < ndims
      then None
      else update_chunk_indices_seek_loop ddims (nat ndims) (sloc sdiv nt_size) sbi spb)"

text \<open>\<^verbatim>\<open>compute_chunk_to_array\<close>: from chunk indices and position in the chunk to the
  indices in the user's array.\<close>

definition compute_chunk_to_array ::
  "int32 list \<Rightarrow> int32 list \<Rightarrow> int32 list \<Rightarrow> int32 \<Rightarrow> DIM_REC list \<Rightarrow> int32 list option"
where
  "compute_chunk_to_array chunk_indices chunk_array_ind array_indices ndims ddims =
     (if int (length chunk_indices) < ndims \<or> int (length chunk_array_ind) < ndims
         \<or> int (length array_indices) < ndims \<or> int (length ddims) < ndims
      then None
      else Some (fold (\<lambda>j arr.
             arr[j := chunk_indices ! j * chunk_length (ddims ! j)
                      + (if chunk_indices ! j = num_chunks (ddims ! j) - 1
                         then (if chunk_array_ind ! j > last_chunk_length (ddims ! j)
                               then last_chunk_length (ddims ! j)
                               else chunk_array_ind ! j)
                         else chunk_array_ind ! j)])
           [0..<nat ndims] array_indices))"

text \<open>\<^verbatim>\<open>compute_array_to_seek\<close>: from the indices in the user's array to the byte
  position in the element.\<close>

fun compute_array_to_seek_loop ::
  "DIM_REC list \<Rightarrow> int32 list \<Rightarrow> nat \<Rightarrow> int32 \<Rightarrow> int32 \<Rightarrow> int32"
where
  "compute_array_to_seek_loop ddims array_indices 0 cnum user_seek = user_seek"
| "compute_array_to_seek_loop ddims array_indices (Suc j) cnum user_seek =
     (let cnum' = cnum * dim_length (ddims ! Suc j)
      in compute_array_to_seek_loop ddims array_indices j cnum'
           (user_seek + array_indices ! j * cnum'))"

definition compute_array_to_seek ::
  "int32 list \<Rightarrow> int32 \<Rightarrow> int32 \<Rightarrow> DIM_REC list \<Rightarrow> int32 option"
where
  "compute_array_to_seek array_indices nt_size ndims ddims =
     (if ndims < 1 \<or> int (length array_indices) < ndims \<or> int (length ddims) < ndims then None
      else Some
        ((if ndims > 1
          then compute_array_to_seek_loop ddims array_indices (nat ndims - 1) 1
                 (array_indices ! (nat ndims - 1))
          else array_indices ! (nat ndims - 1)) * nt_size))"

text \<open>\<^verbatim>\<open>calculate_seek_in_chunk\<close>: from the position in the chunk to the byte offset in
  the chunk.\<close>

fun calculate_seek_in_chunk_loop ::
  "DIM_REC list \<Rightarrow> int32 list \<Rightarrow> nat \<Rightarrow> int32 \<Rightarrow> int32 \<Rightarrow> int32"
where
  "calculate_seek_in_chunk_loop ddims spb 0 cnum chunk_seek = chunk_seek"
| "calculate_seek_in_chunk_loop ddims spb (Suc j) cnum chunk_seek =
     (let cnum' = cnum * chunk_length (ddims ! Suc j)
      in calculate_seek_in_chunk_loop ddims spb j cnum' (chunk_seek + spb ! j * cnum'))"

definition calculate_seek_in_chunk ::
  "int32 \<Rightarrow> int32 \<Rightarrow> int32 list \<Rightarrow> DIM_REC list \<Rightarrow> int32 option"
where
  "calculate_seek_in_chunk ndims nt_size spb ddims =
     (if ndims < 1 \<or> int (length spb) < ndims \<or> int (length ddims) < ndims then None
      else Some
        ((if ndims > 1
          then calculate_seek_in_chunk_loop ddims spb (nat ndims - 1) 1 (spb ! (nat ndims - 1))
          else spb ! (nat ndims - 1)) * nt_size))"

text \<open>\<^verbatim>\<open>update_seek_pos_chunk\<close>: from a byte offset in the chunk to the position in
  the chunk.\<close>

fun update_seek_pos_chunk_loop ::
  "DIM_REC list \<Rightarrow> nat \<Rightarrow> int32 \<Rightarrow> int32 list \<Rightarrow> int32 list option"
where
  "update_seek_pos_chunk_loop ddims 0 stmp spb = Some spb"
| "update_seek_pos_chunk_loop ddims (Suc i) stmp spb =
     (if chunk_length (ddims ! i) = 0 then None
      else update_seek_pos_chunk_loop ddims i (stmp sdiv chunk_length (ddims ! i))
             (spb[i := stmp smod chunk_length (ddims ! i)]))"

definition update_seek_pos_chunk ::
  "int32 \<Rightarrow> int32 \<Rightarrow> int32 \<Rightarrow> int32 list \<Rightarrow> DIM_REC list \<Rightarrow> int32 list option"
where
  "update_seek_pos_chunk chunk_seek ndims nt_size spb ddims =
     (if nt_size = 0 \<or> int (length spb) < ndims \<or> int (length ddims) < ndims then None
      else update_seek_pos_chunk_loop ddims (nat ndims) (chunk_seek sdiv nt_size) spb)"

text \<open>\<^verbatim>\<open>calculate_chunk_num\<close>: from chunk indices to the chunk number.\<close>

fun calculate_chunk_num_loop ::
  "DIM_REC list \<Rightarrow> int32 list \<Rightarrow> nat \<Rightarrow> int32 \<Rightarrow> int32 \<Rightarrow> int32"
where
  "calculate_chunk_num_loop ddims sbi 0 cnum chunk_num = chunk_num"
| "calculate_chunk_num_loop ddims sbi (Suc j) cnum chunk_num =
     (let cnum' = cnum * num_chunks (ddims ! Suc j)
      in calculate_chunk_num_loop ddims sbi j cnum' (chunk_num + sbi ! j * cnum'))"

definition calculate_chunk_num :: "int32 \<Rightarrow> int32 list \<Rightarrow> DIM_REC list \<Rightarrow> int32 option" where
  "calculate_chunk_num ndims sbi ddims =
     (if ndims < 1 \<or> int (length sbi) < ndims \<or> int (length ddims) < ndims then None
      else Some
        (if ndims > 1
         then calculate_chunk_num_loop ddims sbi (nat ndims - 1) 1 (sbi ! (nat ndims - 1))
         else sbi ! (nat ndims - 1)))"

text \<open>\<^verbatim>\<open>calculate_chunk_for_chunk\<close>: how many bytes of the request fit into the current
  chunk along the fastest dimension.\<close>

definition calculate_chunk_for_chunk ::
  "int32 \<Rightarrow> int32 \<Rightarrow> int32 \<Rightarrow> int32 \<Rightarrow> int32 list \<Rightarrow> int32 list \<Rightarrow> DIM_REC list \<Rightarrow> int32 option"
where
  "calculate_chunk_for_chunk ndims nt_size len bytes_finished sbi spb ddims =
     (if ndims < 1 \<or> int (length sbi) < ndims \<or> int (length spb) < ndims
         \<or> int (length ddims) < ndims
      then None
      else
        (let l = nat ndims - 1 in
         if sbi ! l = num_chunks (ddims ! l) - 1
         then (if (last_chunk_length (ddims ! l) - spb ! l) * nt_size > len - bytes_finished
               then Some (len - bytes_finished)
               else Some ((last_chunk_length (ddims ! l) - spb ! l) * nt_size))
         else (if (chunk_length (ddims ! l) - spb ! l) * nt_size > len - bytes_finished
               then Some (len - bytes_finished)
               else Some ((chunk_length (ddims ! l) - spb ! l) * nt_size))))"

text \<open>
  The geometry loop of \<^verbatim>\<open>HMCcreate\<close> (the \<^verbatim>\<open>for\<close> over the dimensions that fills
  \<^verbatim>\<open>info->ddims\<close> and accumulates \<^verbatim>\<open>npages\<close> and \<^verbatim>\<open>data_len\<close>).
  \<open>HMCcreate_dim\<close> is the loop body on one dimension record.
\<close>

definition HMCcreate_dim :: "DIM_DEF \<Rightarrow> DIM_REC \<Rightarrow> DIM_REC option" where
  "HMCcreate_dim pd d0 =
     (let d1 = d0\<lparr>distrib_type := p_distrib_type pd\<rparr>;
          d2 = (if p_dim_length pd = 0
                then d1\<lparr>unlimited := 1, dim_length := p_chunk_length pd\<rparr>
                else d1\<lparr>dim_length := p_dim_length pd\<rparr>);
          d3 = d2\<lparr>flag := 65535 AND (push_bit 8 (unlimited d2) OR distrib_type d2)\<rparr>;
          d4 = d3\<lparr>chunk_length := p_chunk_length pd\<rparr>
      in if chunk_length d4 = 0 then None
         else
           (let d5 = d4\<lparr>num_chunks := dim_length d4 sdiv chunk_length d4\<rparr>;
                odd_size = dim_length d5 smod chunk_length d5
            in if odd_size \<noteq> 0
               then Some (d5\<lparr>num_chunks := num_chunks d5 + 1, last_chunk_length := odd_size\<rparr>)
               else Some (d5\<lparr>last_chunk_length := chunk_length d5\<rparr>)))"

fun HMCcreate_geometry ::
  "DIM_DEF list \<Rightarrow> nat list \<Rightarrow> DIM_REC list \<Rightarrow> int32 \<Rightarrow> int32
     \<Rightarrow> (DIM_REC list \<times> int32 \<times> int32) option"
where
  "HMCcreate_geometry pdims [] ddims npages data_len = Some (ddims, npages, data_len)"
| "HMCcreate_geometry pdims (i # is) ddims npages data_len =
     (if length pdims \<le> i \<or> length ddims \<le> i then None
      else case HMCcreate_dim (pdims ! i) (ddims ! i) of
             None \<Rightarrow> None
           | Some d \<Rightarrow> HMCcreate_geometry pdims is (ddims[i := d])
                         (npages * num_chunks d) (data_len * dim_length d))"

section \<open>Mixed-radix numbers\<close>

text \<open>
  The value of the first \<open>k\<close> digits \<open>ds\<close> in the radices \<open>rs\<close>, digit \<open>k - 1\<close> the least
  significant, and the digits of a value. The three encoding loops above compute
  \<open>mixed_radix\<close>; the seek loop computes \<open>radix_digits\<close>.
\<close>

fun mixed_radix :: "int list \<Rightarrow> int list \<Rightarrow> nat \<Rightarrow> int" where
  "mixed_radix rs ds 0 = 0"
| "mixed_radix rs ds (Suc k) = ds ! k + rs ! k * mixed_radix rs ds k"

fun radix_digits :: "int list \<Rightarrow> nat \<Rightarrow> int \<Rightarrow> int list" where
  "radix_digits rs 0 v = []"
| "radix_digits rs (Suc k) v = radix_digits rs k (v div rs ! k) @ [v mod rs ! k]"


text \<open>The geometry of scenario A: two dimensions of length 10 in chunks of 4.\<close>

definition scenario_A_pdims :: "DIM_DEF list" where
  "scenario_A_pdims =
     [\<lparr>p_distrib_type = 0, p_dim_length = 10, p_chunk_length = 4\<rparr>,
      \<lparr>p_distrib_type = 0, p_dim_length = 10, p_chunk_length = 4\<rparr>]"

definition scenario_A_ddims :: "DIM_REC list" where
  "scenario_A_ddims =
     [\<lparr>flag = 0, dim_length = 10, chunk_length = 4, distrib_type = 0, unlimited = 0,
       last_chunk_length = 2, num_chunks = 3\<rparr>,
      \<lparr>flag = 0, dim_length = 10, chunk_length = 4, distrib_type = 0, unlimited = 0,
       last_chunk_length = 2, num_chunks = 3\<rparr>]"

text \<open>
  A dimension record as \<^verbatim>\<open>HMCcreate\<close> derives it from positive lengths: the number of
  chunks and the length of the last chunk follow from \<open>dim_length\<close> and \<open>chunk_length\<close>.
\<close>

definition valid_dim :: "DIM_REC \<Rightarrow> bool" where
  "valid_dim d =
     (0 < dim_length d \<and> 0 < chunk_length d
      \<and> num_chunks d = dim_length d sdiv chunk_length d
            + (if dim_length d smod chunk_length d \<noteq> 0 then 1 else 0)
      \<and> last_chunk_length d =
            (if dim_length d smod chunk_length d \<noteq> 0 then dim_length d smod chunk_length d
             else chunk_length d))"

text \<open>
  The round trip of claim C1: a byte offset is decomposed by
  \<^verbatim>\<open>update_chunk_indices_seek\<close> and recomposed by \<^verbatim>\<open>compute_chunk_to_array\<close> and
  \<^verbatim>\<open>compute_array_to_seek\<close>.
\<close>

definition byte_offset_roundtrip ::
  "int32 \<Rightarrow> int32 \<Rightarrow> int32 \<Rightarrow> int32 list \<Rightarrow> int32 list \<Rightarrow> int32 list \<Rightarrow> DIM_REC list \<Rightarrow> int32 option"
where
  "byte_offset_roundtrip x ndims nt_size sbi spb sui ddims =
     (case update_chunk_indices_seek x ndims nt_size sbi spb ddims of
        None \<Rightarrow> None
      | Some (sbi', spb') \<Rightarrow>
          (case compute_chunk_to_array sbi' spb' sui ndims ddims of
             None \<Rightarrow> None
           | Some array_indices \<Rightarrow> compute_array_to_seek array_indices nt_size ndims ddims))"


section \<open>Constants of headers that are not among the sources\<close>

text \<open>
  \<^verbatim>\<open>htags.h\<close>, \<^verbatim>\<open>hdf.h\<close> and \<^verbatim>\<open>hlimits.h\<close> are not under \<^verbatim>\<open>src/\<close>; the values are
  those of the HDF4 headers. The theorems use only that \<open>DFTAG_NULL\<close> and \<open>DFTAG_CHUNK\<close>
  differ and that the origins of a seek differ.
\<close>

definition DFTAG_NULL :: uint16 where "DFTAG_NULL = 1"
definition DFTAG_CHUNK :: uint16 where "DFTAG_CHUNK = 61"
definition SPECIAL_COMP :: int32 where "SPECIAL_COMP = 3"
definition SPECIAL_CHUNKED :: int32 where "SPECIAL_CHUNKED = 5"
definition DF_CURRENT :: int32 where "DF_CURRENT = 1"
definition DF_END :: int32 where "DF_END = 2"
definition DFACC_READ :: int32 where "DFACC_READ = 1"
definition DFACC_WRITE :: int32 where "DFACC_WRITE = 2"

text \<open>\<^verbatim>\<open>mcache.h\<close>: the flags of a cached page.\<close>

definition MCACHE_DIRTY :: int32 where "MCACHE_DIRTY = 1"
definition MCACHE_PINNED :: int32 where "MCACHE_PINNED = 2"

text \<open>\<^verbatim>\<open>hfile.h\<close>: \<^verbatim>\<open>BASETAG(t)\<close>.\<close>

definition BASETAG :: "uint16 \<Rightarrow> uint16" where
  "BASETAG t = (if (NOT t) AND 0x8000 \<noteq> 0 then t AND NOT 0x4000 else t)"

section \<open>The state of an open chunked element\<close>

text \<open>
  The errors a call reports. \<open>Undefined_behaviour\<close> stands for a run that divides by
  zero or leaves an array or a buffer in C; \<open>Out_of_fuel\<close> for a loop that did not end
  within the given number of rounds.
\<close>

datatype herr =
    DFE_ARGS | DFE_RANGE | DFE_INTERNAL | DFE_DENIED | DFE_NOREF | DFE_VSWRITE
  | DFE_READERROR | DFE_WRITEERROR | DFE_CANTCOMP | DFE_CANTDECOMP | DFE_NOENCODER
  | DFE_CENCODE | DFE_CDECODE
  | HE_REPORT string
  | Undefined_behaviour | Out_of_fuel

text \<open>The calls the engine makes on its collaborators, recorded in the order they are
  made (the field \<open>calls\<close> below): the directory index, the page cache, the object store
  and the chunk table.\<close>

datatype event =
    Ev_tbbtdins int32
  | Ev_mcache_get int32
  | Ev_mcache_put int32 int32
  | Ev_Htagnewref
  | Ev_VSwrite
  | Ev_Hstartread uint16 uint16
  | Ev_Hstartwrite uint16 uint16
  | Ev_HCcreate uint16 uint16
  | Ev_Hread
  | Ev_Hwrite
  | Ev_Hendaccess

text \<open>\<^verbatim>\<open>CHUNK_REC\<close>: one entry of the chunk directory.\<close>

record CHUNK_REC =
  chunk_number :: int32
  chk_vnum :: int32
  origin :: "int32 list"
  chk_tag :: uint16
  chk_ref :: uint16

text \<open>\<^verbatim>\<open>BKT\<close> and \<^verbatim>\<open>MCACHE\<close> of \<^verbatim>\<open>mcache.h\<close>: the pages in the cache, the least
  recently used first.\<close>

record BKT =
  page :: "uint8 list"
  pgno :: int32
  flags :: int32

record MCACHE =
  lqh :: "BKT list"
  maxcache :: int32
  npages :: int32
  pagesize :: int32

text \<open>
  Modelled from the spec: the Object Store and the Chunk Directory Store, the external
  collaborators of sections 2 and 6 (their code is not under \<^verbatim>\<open>src/\<close>). \<open>elements\<close> are
  the stored elements by tag and ref, \<open>chktbl\<close> the records of the chunk table in the
  order they were appended, \<open>maxref\<close> the highest ref handed out. \<open>faults\<close> says which
  calls fail on the storage medium, by the position of the call in \<open>calls\<close>.
\<close>

record filerec_t =
  f_access :: int32
  refcount :: int32
  maxref :: nat
  elements :: "uint16 \<times> uint16 \<Rightarrow> uint8 list option"
  chktbl :: "(int32 list \<times> uint16 \<times> uint16) list"
  faults :: "nat \<Rightarrow> bool"
  calls :: "event list"

text \<open>\<^verbatim>\<open>chunkinfo_t\<close>. The field \<^verbatim>\<open>flag\<close> is \<open>sp_flag\<close> and \<^verbatim>\<open>length\<close> is
  \<open>elt_length\<close> here; the directory index \<^verbatim>\<open>chk_tree\<close> (a TBBT keyed by the chunk
  number) is a finite map.\<close>

record chunkinfo_t =
  attached :: int32
  sp_flag :: int32
  elt_length :: int32
  chunk_size :: int32
  nt_size :: int32
  ndims :: int32
  ddims :: "DIM_REC list"
  fill_val_len :: int32
  fill_val :: "uint8 list"
  seek_chunk_indices :: "int32 list"
  seek_pos_chunk :: "int32 list"
  seek_user_indices :: "int32 list"
  chk_tree :: "int32 \<Rightarrow> CHUNK_REC option"
  chk_cache :: MCACHE
  num_recs :: int32

text \<open>\<^verbatim>\<open>accrec_t\<close>, with the file record its \<^verbatim>\<open>file_id\<close> names and the information
  record its \<^verbatim>\<open>special_info\<close> points to. The handle is open: the pointer is never
  \<^verbatim>\<open>NULL\<close>.\<close>

record accrec_t =
  access :: int32
  special :: int32
  posn :: int32
  file_rec :: filerec_t
  special_info :: chunkinfo_t

definition BADFREC :: "filerec_t \<Rightarrow> bool" where
  "BADFREC r = (refcount r = 0)"

definition note_call :: "event \<Rightarrow> accrec_t \<Rightarrow> accrec_t" where
  "note_call ev ar = ar\<lparr>file_rec := (file_rec ar)\<lparr>calls := calls (file_rec ar) @ [ev]\<rparr>\<rparr>"

subsection \<open>The object store and the chunk table\<close>

text \<open>Modelled from the spec: the calls of section 6. Every call is recorded and fails
  when the medium fails at it.\<close>

definition store_call :: "event \<Rightarrow> filerec_t \<Rightarrow> bool \<times> filerec_t" where
  "store_call ev f = (faults f (length (calls f)), f\<lparr>calls := calls f @ [ev]\<rparr>)"

definition Htagnewref :: "filerec_t \<Rightarrow> uint16 \<Rightarrow> uint16 \<times> filerec_t" where
  "Htagnewref f tag =
     (case store_call Ev_Htagnewref f of (bad, f1) \<Rightarrow>
        if bad \<or> 65535 \<le> maxref f1 then (0, f1)
        else (word_of_nat (maxref f1 + 1), f1\<lparr>maxref := maxref f1 + 1\<rparr>))"

definition VSwrite :: "filerec_t \<Rightarrow> int32 list \<times> uint16 \<times> uint16 \<Rightarrow> bool \<times> filerec_t" where
  "VSwrite f v_data =
     (case store_call Ev_VSwrite f of (bad, f1) \<Rightarrow>
        if bad then (False, f1) else (True, f1\<lparr>chktbl := chktbl f1 @ [v_data]\<rparr>))"

definition Hstartread ::
  "filerec_t \<Rightarrow> uint16 \<Rightarrow> uint16 \<Rightarrow> (uint16 \<times> uint16) option \<times> filerec_t"
where
  "Hstartread f tag ref =
     (case store_call (Ev_Hstartread tag ref) f of (bad, f1) \<Rightarrow>
        if bad \<or> elements f1 (tag, ref) = None then (None, f1) else (Some (tag, ref), f1))"

definition Hstartwrite ::
  "filerec_t \<Rightarrow> uint16 \<Rightarrow> uint16 \<Rightarrow> int32 \<Rightarrow> (uint16 \<times> uint16) option \<times> filerec_t"
where
  "Hstartwrite f tag ref len =
     (case store_call (Ev_Hstartwrite tag ref) f of (bad, f1) \<Rightarrow>
        if bad then (None, f1)
        else (Some (tag, ref),
              f1\<lparr>elements := (elements f1)((tag, ref) \<mapsto>
                    (case elements f1 (tag, ref) of
                       None \<Rightarrow> replicate (nat len) 0
                     | Some e \<Rightarrow> e))\<rparr>))"

definition HCcreate ::
  "filerec_t \<Rightarrow> uint16 \<Rightarrow> uint16 \<Rightarrow> (uint16 \<times> uint16) option \<times> filerec_t"
where
  "HCcreate f tag ref =
     (case store_call (Ev_HCcreate tag ref) f of (bad, f1) \<Rightarrow>
        if bad then (None, f1)
        else (Some (tag, ref),
              f1\<lparr>elements := (elements f1)((tag, ref) \<mapsto>
                    (case elements f1 (tag, ref) of None \<Rightarrow> [] | Some e \<Rightarrow> e))\<rparr>))"

definition Hread ::
  "filerec_t \<Rightarrow> uint16 \<times> uint16 \<Rightarrow> int32 \<Rightarrow> uint8 list \<Rightarrow> uint8 list option \<times> filerec_t"
where
  "Hread f aid len buf =
     (case store_call Ev_Hread f of (bad, f1) \<Rightarrow>
        case elements f1 aid of
          None \<Rightarrow> (None, f1)
        | Some e \<Rightarrow>
            if bad \<or> len < 0 then (None, f1)
            else (Some (take (nat len) e @ drop (length (take (nat len) e)) buf), f1))"

definition Hwrite ::
  "filerec_t \<Rightarrow> uint16 \<times> uint16 \<Rightarrow> int32 \<Rightarrow> uint8 list \<Rightarrow> bool \<times> filerec_t"
where
  "Hwrite f aid len buf =
     (case store_call Ev_Hwrite f of (bad, f1) \<Rightarrow>
        case elements f1 aid of
          None \<Rightarrow> (False, f1)
        | Some e \<Rightarrow>
            if bad \<or> len \<le> 0 \<or> int (length buf) < len then (False, f1)
            else (True, f1\<lparr>elements := (elements f1)(aid \<mapsto>
                           take (nat len) buf @ drop (nat len) e)\<rparr>))"

definition Hendaccess :: "filerec_t \<Rightarrow> (uint16 \<times> uint16) option \<Rightarrow> bool \<times> filerec_t" where
  "Hendaccess f aid =
     (case store_call Ev_Hendaccess f of (bad, f1) \<Rightarrow> (\<not> bad \<and> aid \<noteq> None, f1))"

text \<open>
  Modelled from the spec: \<^verbatim>\<open>HDmemfill\<close> (its definition is not under \<^verbatim>\<open>src/\<close>), the
  fill pattern of section 4.5 repeated \<open>num_items\<close> times at the start of \<open>dest\<close>. The two
  counts are \<^verbatim>\<open>uint32\<close> in C. \<open>None\<close> is a fill that leaves the buffer.
\<close>

definition HDmemfill :: "uint8 list \<Rightarrow> uint8 list \<Rightarrow> int32 \<Rightarrow> int32 \<Rightarrow> uint8 list option" where
  "HDmemfill dest src item_size num_items =
     (let isz = nat (item_size mod 2 ^ 32); n = nat (num_items mod 2 ^ 32) in
      if 0 < n \<and> 0 < isz
      then (if length src < isz \<or> length dest < n * isz then None
            else Some (concat (replicate n (take isz src)) @ drop (n * isz) dest))
      else Some dest)"

subsection \<open>Seek\<close>

text \<open>\<^verbatim>\<open>HMCPseek\<close>. The result is the return value and the access record after the
  call.\<close>

definition HMCPseek :: "accrec_t \<Rightarrow> int32 \<Rightarrow> int32 \<Rightarrow> (herr + int32) \<times> accrec_t" where
  "HMCPseek access_rec offset whence =
     (if special access_rec \<noteq> SPECIAL_CHUNKED then (Inl DFE_INTERNAL, access_rec)
      else
        (let info = special_info access_rec;
             offset1 = (if whence = DF_CURRENT then offset + posn access_rec else offset);
             offset2 = (if whence = DF_END then offset1 + elt_length info * nt_size info
                        else offset1)
         in if offset2 < 0 then (Inl DFE_RANGE, access_rec)
            else
              (case update_chunk_indices_seek offset2 (ndims info) (nt_size info)
                      (seek_chunk_indices info) (seek_pos_chunk info) (ddims info) of
                 None \<Rightarrow> (Inl Undefined_behaviour, access_rec)
               | Some (sbi, spb) \<Rightarrow>
                   (Inr 0,
                    access_rec\<lparr>special_info :=
                                   info\<lparr>seek_chunk_indices := sbi, seek_pos_chunk := spb\<rparr>,
                                 posn := offset2\<rparr>))))"

subsection \<open>The page-in and page-out routines\<close>

text \<open>\<^verbatim>\<open>HMCPchunkread\<close>, the page-in routine of the cache. The result is the return
  value, the buffer \<^verbatim>\<open>datap\<close> after the call and the access record after the call.\<close>

definition HMCPchunkread_fill ::
  "accrec_t \<Rightarrow> uint8 list \<Rightarrow> (herr + int32) \<times> uint8 list \<times> accrec_t"
where
  "HMCPchunkread_fill access_rec datap =
     (let info = special_info access_rec in
      if fill_val_len info = 0 then (Inl Undefined_behaviour, datap, access_rec)
      else
        (let nitems = (chunk_size info * nt_size info) sdiv fill_val_len info in
         case HDmemfill datap (fill_val info) (fill_val_len info) nitems of
           None \<Rightarrow> (Inl Undefined_behaviour, datap, access_rec)
         | Some datap' \<Rightarrow> (Inr 0, datap', access_rec)))"

definition HMCPchunkread ::
  "accrec_t \<Rightarrow> int32 \<Rightarrow> uint8 list \<Rightarrow> (herr + int32) \<times> uint8 list \<times> accrec_t"
where
  "HMCPchunkread access_rec chunk_num datap =
     (let info = special_info access_rec;
          read_len = chunk_size info * nt_size info
      in case chk_tree info chunk_num of
           None \<Rightarrow> HMCPchunkread_fill access_rec datap
         | Some chk_rec \<Rightarrow>
             if chk_tag chk_rec \<noteq> DFTAG_NULL \<and> BASETAG (chk_tag chk_rec) = DFTAG_CHUNK
             then
               (case Hstartread (file_rec access_rec) (chk_tag chk_rec) (chk_ref chk_rec) of
                  (None, f1) \<Rightarrow>
                    (case Hendaccess f1 None of (ok, f2) \<Rightarrow>
                       (Inl (HE_REPORT ''Hstartread failed to read chunk''), datap,
                        access_rec\<lparr>file_rec := f2\<rparr>))
                | (Some chk_id, f1) \<Rightarrow>
                    (case Hread f1 chk_id read_len datap of
                       (None, f2) \<Rightarrow>
                         (case Hendaccess f2 (Some chk_id) of (ok, f3) \<Rightarrow>
                            (Inl DFE_READERROR, datap, access_rec\<lparr>file_rec := f3\<rparr>))
                     | (Some datap', f2) \<Rightarrow>
                         (case Hendaccess f2 (Some chk_id) of
                            (False, f3) \<Rightarrow>
                              (case Hendaccess f3 (Some chk_id) of (ok, f4) \<Rightarrow>
                                 (Inl (HE_REPORT ''Hendaccess failed to end access to chunk''),
                                  datap', access_rec\<lparr>file_rec := f4\<rparr>))
                          | (True, f3) \<Rightarrow>
                              (Inr read_len, datap', access_rec\<lparr>file_rec := f3\<rparr>))))
             else if chk_tag chk_rec = DFTAG_NULL
             then HMCPchunkread_fill access_rec datap
             else (Inl (HE_REPORT ''Not a valid Chunk object, wrong tag for chunk''), datap,
                   access_rec))"

text \<open>\<^verbatim>\<open>HMCPchunkwrite\<close>, the page-out routine of the cache. \<open>HMCPchunkwrite_data\<close> is
  its tail from \<^verbatim>\<open>Hwrite\<close> on.\<close>

definition HMCPchunkwrite_data ::
  "accrec_t \<Rightarrow> filerec_t \<Rightarrow> uint16 \<times> uint16 \<Rightarrow> int32 \<Rightarrow> uint8 list \<Rightarrow> (herr + int32) \<times> accrec_t"
where
  "HMCPchunkwrite_data access_rec f chk_id write_len datap =
     (case Hwrite f chk_id write_len datap of
        (False, f1) \<Rightarrow>
          (case Hendaccess f1 (Some chk_id) of (ok, f2) \<Rightarrow>
             (Inl DFE_WRITEERROR, access_rec\<lparr>file_rec := f2\<rparr>))
      | (True, f1) \<Rightarrow>
          (case Hendaccess f1 (Some chk_id) of
             (False, f2) \<Rightarrow>
               (case Hendaccess f2 (Some chk_id) of (ok, f3) \<Rightarrow>
                  (Inl (HE_REPORT ''Hendaccess failed to end access to chunk''),
                   access_rec\<lparr>file_rec := f3\<rparr>))
           | (True, f2) \<Rightarrow> (Inr write_len, access_rec\<lparr>file_rec := f2\<rparr>)))"

definition HMCPchunkwrite ::
  "accrec_t \<Rightarrow> int32 \<Rightarrow> uint8 list \<Rightarrow> (herr + int32) \<times> accrec_t"
where
  "HMCPchunkwrite access_rec chunk_num datap =
     (let info = special_info access_rec;
          write_len = chunk_size info * nt_size info
      in case chk_tree info chunk_num of
           None \<Rightarrow> (Inl (HE_REPORT ''failed to find chunk record''), access_rec)
         | Some chk_rec \<Rightarrow>
             if chk_tag chk_rec = DFTAG_NULL
             then
               (case Htagnewref (file_rec access_rec) DFTAG_CHUNK of (new_ref, f1) \<Rightarrow>
                  let chkptr = chk_rec\<lparr>chk_tag := DFTAG_CHUNK, chk_ref := new_ref\<rparr>;
                      ar1 = access_rec\<lparr>special_info :=
                                info\<lparr>chk_tree := (chk_tree info)(chunk_num \<mapsto> chkptr)\<rparr>\<rparr>
                  in if chk_ref chkptr = 0 then (Inl DFE_NOREF, ar1\<lparr>file_rec := f1\<rparr>)
                     else
                       (case VSwrite f1 (origin chkptr, chk_tag chkptr, chk_ref chkptr) of
                          (False, f2) \<Rightarrow> (Inl DFE_VSWRITE, ar1\<lparr>file_rec := f2\<rparr>)
                        | (True, f2) \<Rightarrow>
                            (case (if sp_flag info AND 255 = SPECIAL_COMP
                                   then HCcreate f2 (chk_tag chkptr) (chk_ref chkptr)
                                   else Hstartwrite f2 (chk_tag chkptr) (chk_ref chkptr)
                                          write_len) of
                               (None, f3) \<Rightarrow>
                                 (Inl (HE_REPORT (if sp_flag info AND 255 = SPECIAL_COMP
                                                  then ''HCcreate failed to read chunk''
                                                  else ''Hstartwrite failed to read chunk'')),
                                  ar1\<lparr>file_rec := f3\<rparr>)
                             | (Some chk_id, f3) \<Rightarrow>
                                 HMCPchunkwrite_data ar1 f3 chk_id write_len datap)))
             else
               (case Hstartwrite (file_rec access_rec) (chk_tag chk_rec) (chk_ref chk_rec)
                       write_len of
                  (None, f1) \<Rightarrow>
                    (Inl (HE_REPORT ''Hstartwrite failed to read chunk''),
                     access_rec\<lparr>file_rec := f1\<rparr>)
                | (Some chk_id, f1) \<Rightarrow>
                    HMCPchunkwrite_data access_rec f1 chk_id write_len datap))"

subsection \<open>The page cache\<close>

text \<open>
  Modelled from the spec: the page cache of section 4.1 (\<^verbatim>\<open>mcache.c\<close> is not under
  \<^verbatim>\<open>src/\<close>; the types and flags are those of \<^verbatim>\<open>mcache.h\<close>). Pages are numbered from 1
  to \<open>npages\<close>; page \<open>p\<close> holds chunk \<open>p - 1\<close>. The page-in and page-out routines are the
  ones \<^verbatim>\<open>mcache_filter\<close> installs in \<^verbatim>\<open>HMCcreate\<close>: \<^verbatim>\<open>HMCPchunkread\<close> and
  \<^verbatim>\<open>HMCPchunkwrite\<close>. A miss takes a free buffer while fewer than \<open>maxcache\<close> pages
  are resident; otherwise it evicts the least recently used page that is not pinned,
  writing it back first when it is dirty.
\<close>

definition set_cache :: "accrec_t \<Rightarrow> MCACHE \<Rightarrow> accrec_t" where
  "set_cache access_rec mp = access_rec\<lparr>special_info := (special_info access_rec)\<lparr>chk_cache := mp\<rparr>\<rparr>"

definition mcache_look :: "MCACHE \<Rightarrow> int32 \<Rightarrow> BKT option" where
  "mcache_look mp p = find (\<lambda>b. pgno b = p) (lqh mp)"

definition mcache_bkt :: "accrec_t \<Rightarrow> bool \<times> accrec_t" where
  "mcache_bkt access_rec =
     (let mp = chk_cache (special_info access_rec) in
      if int (length (lqh mp)) < maxcache mp then (True, access_rec)
      else
        (case find (\<lambda>b. flags b AND MCACHE_PINNED = 0) (lqh mp) of
           None \<Rightarrow> (True, access_rec)
         | Some b \<Rightarrow>
             if flags b AND MCACHE_DIRTY \<noteq> 0
             then
               (case HMCPchunkwrite access_rec (pgno b - 1) (page b) of
                  (Inl e, ar1) \<Rightarrow> (False, ar1)
                | (Inr n, ar1) \<Rightarrow>
                    (True, set_cache ar1
                       ((chk_cache (special_info ar1))
                          \<lparr>lqh := remove1 b (lqh (chk_cache (special_info ar1)))\<rparr>)))
             else (True, set_cache access_rec (mp\<lparr>lqh := remove1 b (lqh mp)\<rparr>))))"

definition mcache_get :: "accrec_t \<Rightarrow> int32 \<Rightarrow> int32 \<Rightarrow> uint8 list option \<times> accrec_t" where
  "mcache_get access_rec p fl =
     (let ar0 = note_call (Ev_mcache_get p) access_rec;
          mp = chk_cache (special_info ar0)
      in if p < 1 \<or> npages mp < p then (None, ar0)
         else
           (case mcache_look mp p of
              Some b \<Rightarrow>
                (Some (page b),
                 set_cache ar0
                   (mp\<lparr>lqh := remove1 b (lqh mp) @ [b\<lparr>flags := flags b OR MCACHE_PINNED\<rparr>]\<rparr>))
            | None \<Rightarrow>
                (case mcache_bkt ar0 of
                   (False, ar1) \<Rightarrow> (None, ar1)
                 | (True, ar1) \<Rightarrow>
                     (case HMCPchunkread ar1 (p - 1) (replicate (nat (pagesize mp)) 0) of
                        (Inl e, buf, ar2) \<Rightarrow> (None, ar2)
                      | (Inr n, buf, ar2) \<Rightarrow>
                          (Some buf,
                           set_cache ar2
                             ((chk_cache (special_info ar2))
                                \<lparr>lqh := lqh (chk_cache (special_info ar2))
                                          @ [\<lparr>page = buf, pgno = p, flags = MCACHE_PINNED\<rparr>]\<rparr>))))))"

text \<open>\<^verbatim>\<open>mcache_put\<close> takes the page buffer in C; here it takes the number of the page
  the buffer belongs to and the contents the caller left in the buffer.\<close>

definition mcache_put :: "accrec_t \<Rightarrow> int32 \<Rightarrow> uint8 list \<Rightarrow> int32 \<Rightarrow> bool \<times> accrec_t" where
  "mcache_put access_rec p buf fl =
     (let ar0 = note_call (Ev_mcache_put p fl) access_rec;
          mp = chk_cache (special_info ar0)
      in case mcache_look mp p of
           None \<Rightarrow> (False, ar0)
         | Some b \<Rightarrow>
             (True,
              set_cache ar0
                (mp\<lparr>lqh := map (\<lambda>x. if pgno x = p
                                     then x\<lparr>page := buf,
                                            flags := (flags x AND NOT MCACHE_PINNED)
                                                       OR (fl AND MCACHE_DIRTY)\<rparr>
                                     else x) (lqh mp)\<rparr>)))"

text \<open>\<^verbatim>\<open>mcache_set_maxcache\<close>, as the comment of \<^verbatim>\<open>HMCsetMaxcache\<close> describes it: the
  budget grows to a larger value, and shrinks only to a value above the number of pages
  in the cache.\<close>

definition mcache_set_maxcache :: "MCACHE \<Rightarrow> int32 \<Rightarrow> int32 \<times> MCACHE" where
  "mcache_set_maxcache mp n =
     (if maxcache mp < n then (n, mp\<lparr>maxcache := n\<rparr>)
      else if int (length (lqh mp)) < n then (n, mp\<lparr>maxcache := n\<rparr>)
      else (maxcache mp, mp))"

subsection \<open>Reading and writing\<close>

text \<open>\<^verbatim>\<open>memcpy\<close> out of and into a buffer of known size; \<open>None\<close> is a copy that leaves
  the buffer.\<close>

definition memcpy_from :: "uint8 list \<Rightarrow> int32 \<Rightarrow> int32 \<Rightarrow> uint8 list option" where
  "memcpy_from src off n =
     (if off < 0 \<or> n < 0 \<or> int (length src) < off + n then None
      else Some (take (nat n) (drop (nat off) src)))"

definition memcpy_into :: "uint8 list \<Rightarrow> int32 \<Rightarrow> uint8 list \<Rightarrow> uint8 list option" where
  "memcpy_into dest off bytes =
     (if off < 0 \<or> int (length dest) < off + int (length bytes) then None
      else Some (take (nat off) dest @ bytes @ drop (nat off + length bytes) dest))"

text \<open>The block of \<^verbatim>\<open>HMCPwrite\<close> and \<^verbatim>\<open>HMCwriteChunk\<close> that creates the directory
  entry of a chunk that is not in the index: tag \<open>DFTAG_NULL\<close>, ref 0, the next record
  number, inserted under the chunk number.\<close>

definition chunk_insert :: "accrec_t \<Rightarrow> int32 \<Rightarrow> int32 list \<Rightarrow> accrec_t" where
  "chunk_insert access_rec chunk_num org =
     (let info = special_info access_rec;
          chkptr = \<lparr>chunk_number = chunk_num, chk_vnum = num_recs info,
                    origin = take (nat (ndims info)) org,
                    chk_tag = DFTAG_NULL, chk_ref = 0\<rparr>
      in note_call (Ev_tbbtdins chunk_num)
           (access_rec\<lparr>special_info :=
              info\<lparr>num_recs := num_recs info + 1,
                   chk_tree := (chk_tree info)(chunk_num \<mapsto> chkptr)\<rparr>\<rparr>))"

text \<open>One round of the loop of \<^verbatim>\<open>HMCPread\<close>: the bytes moved and the bytes copied to
  the caller.\<close>

definition HMCPread_step ::
  "accrec_t \<Rightarrow> int32 \<Rightarrow> int32 \<Rightarrow> int32 \<Rightarrow> (herr + int32 \<times> uint8 list) \<times> accrec_t"
where
  "HMCPread_step access_rec read_len bytes_read relative_posn =
     (let info = special_info access_rec in
      case calculate_chunk_num (ndims info) (seek_chunk_indices info) (ddims info) of
        None \<Rightarrow> (Inl Undefined_behaviour, access_rec)
      | Some chunk_num \<Rightarrow>
      (case calculate_chunk_for_chunk (ndims info) (nt_size info) read_len bytes_read
              (seek_chunk_indices info) (seek_pos_chunk info) (ddims info) of
        None \<Rightarrow> (Inl Undefined_behaviour, access_rec)
      | Some chunk_size' \<Rightarrow>
      (case mcache_get access_rec (chunk_num + 1) 0 of
        (None, ar1) \<Rightarrow> (Inl (HE_REPORT ''failed to find chunk record''), ar1)
      | (Some chk_data, ar1) \<Rightarrow>
      (case calculate_seek_in_chunk (ndims (special_info ar1)) (nt_size (special_info ar1))
              (seek_pos_chunk (special_info ar1)) (ddims (special_info ar1)) of
        None \<Rightarrow> (Inl Undefined_behaviour, ar1)
      | Some read_seek \<Rightarrow>
      (case memcpy_from chk_data read_seek chunk_size' of
        None \<Rightarrow> (Inl Undefined_behaviour, ar1)
      | Some bytes \<Rightarrow>
      (case mcache_put ar1 (chunk_num + 1) chk_data 0 of
        (False, ar2) \<Rightarrow> (Inl (HE_REPORT ''failed to put chunk back in cache''), ar2)
      | (True, ar2) \<Rightarrow>
      (case update_chunk_indices_seek (relative_posn + chunk_size')
              (ndims (special_info ar2)) (nt_size (special_info ar2))
              (seek_chunk_indices (special_info ar2)) (seek_pos_chunk (special_info ar2))
              (ddims (special_info ar2)) of
        None \<Rightarrow> (Inl Undefined_behaviour, ar2)
      | Some (sbi, spb) \<Rightarrow>
          (Inr (chunk_size', bytes),
           ar2\<lparr>special_info :=
                 (special_info ar2)\<lparr>seek_chunk_indices := sbi, seek_pos_chunk := spb\<rparr>\<rparr>))))))))"

fun HMCPread_loop ::
  "nat \<Rightarrow> accrec_t \<Rightarrow> int32 \<Rightarrow> int32 \<Rightarrow> int32 \<Rightarrow> uint8 list
     \<Rightarrow> (herr + int32) \<times> uint8 list \<times> accrec_t"
where
  "HMCPread_loop 0 access_rec read_len bytes_read relative_posn out =
     (if bytes_read < read_len then (Inl Out_of_fuel, out, access_rec)
      else (Inr bytes_read, out, access_rec))"
| "HMCPread_loop (Suc fuel) access_rec read_len bytes_read relative_posn out =
     (if bytes_read < read_len
      then (case HMCPread_step access_rec read_len bytes_read relative_posn of
              (Inl e, ar1) \<Rightarrow> (Inl e, out, ar1)
            | (Inr (chunk_size', bytes), ar1) \<Rightarrow>
                HMCPread_loop fuel ar1 read_len (bytes_read + chunk_size')
                  (relative_posn + chunk_size') (out @ bytes))
      else (Inr bytes_read, out, access_rec))"

text \<open>\<^verbatim>\<open>HMCPread\<close>. The result is the return value, the bytes stored to \<^verbatim>\<open>datap\<close> and
  the access record after the call. \<open>fuel\<close> bounds the rounds of the loop.\<close>

definition HMCPread ::
  "nat \<Rightarrow> accrec_t \<Rightarrow> int32 \<Rightarrow> (herr + int32) \<times> uint8 list \<times> accrec_t"
where
  "HMCPread fuel access_rec len =
     (let info = special_info access_rec in
      if len \<noteq> 0 \<and> len < 0 then (Inl DFE_RANGE, [], access_rec)
      else
        (let len1 = (if len = 0 then elt_length info * nt_size info - posn access_rec
                     else len);
             len2 = (if posn access_rec + len1 > elt_length info * nt_size info
                     then elt_length info * nt_size info - posn access_rec
                     else len1)
         in case update_chunk_indices_seek (posn access_rec) (ndims info) (nt_size info)
                   (seek_chunk_indices info) (seek_pos_chunk info) (ddims info) of
              None \<Rightarrow> (Inl Undefined_behaviour, [], access_rec)
            | Some (sbi, spb) \<Rightarrow>
                (case HMCPread_loop fuel
                        (access_rec\<lparr>special_info :=
                            info\<lparr>seek_chunk_indices := sbi, seek_pos_chunk := spb\<rparr>\<rparr>)
                        len2 0 (posn access_rec) [] of
                   (Inl e, out, ar1) \<Rightarrow> (Inl e, out, ar1)
                 | (Inr bytes_read, out, ar1) \<Rightarrow>
                     (Inr bytes_read, out, ar1\<lparr>posn := posn ar1 + bytes_read\<rparr>))))"

text \<open>One round of the loop of \<^verbatim>\<open>HMCPwrite\<close>: the bytes moved.\<close>

definition HMCPwrite_step ::
  "accrec_t \<Rightarrow> int32 \<Rightarrow> uint8 list \<Rightarrow> int32 \<Rightarrow> int32 \<Rightarrow> (herr + int32) \<times> accrec_t"
where
  "HMCPwrite_step access_rec write_len datap bytes_written relative_posn =
     (let info = special_info access_rec in
      case calculate_chunk_num (ndims info) (seek_chunk_indices info) (ddims info) of
        None \<Rightarrow> (Inl Undefined_behaviour, access_rec)
      | Some chunk_num \<Rightarrow>
      (case calculate_chunk_for_chunk (ndims info) (nt_size info) write_len bytes_written
              (seek_chunk_indices info) (seek_pos_chunk info) (ddims info) of
        None \<Rightarrow> (Inl Undefined_behaviour, access_rec)
      | Some chunk_size' \<Rightarrow>
      (case mcache_get
              (if chk_tree info chunk_num = None
               then chunk_insert access_rec chunk_num (seek_chunk_indices info)
               else access_rec)
              (chunk_num + 1) 0 of
        (None, ar1) \<Rightarrow> (Inl (HE_REPORT ''failed to find chunk record''), ar1)
      | (Some chk_data, ar1) \<Rightarrow>
      (case calculate_seek_in_chunk (ndims (special_info ar1)) (nt_size (special_info ar1))
              (seek_pos_chunk (special_info ar1)) (ddims (special_info ar1)) of
        None \<Rightarrow> (Inl Undefined_behaviour, ar1)
      | Some write_seek \<Rightarrow>
      (case memcpy_from datap bytes_written chunk_size' of
        None \<Rightarrow> (Inl Undefined_behaviour, ar1)
      | Some bytes \<Rightarrow>
      (case memcpy_into chk_data write_seek bytes of
        None \<Rightarrow> (Inl Undefined_behaviour, ar1)
      | Some chk_data' \<Rightarrow>
      (case mcache_put ar1 (chunk_num + 1) chk_data' MCACHE_DIRTY of
        (False, ar2) \<Rightarrow> (Inl (HE_REPORT ''failed to put chunk back in cache''), ar2)
      | (True, ar2) \<Rightarrow>
      (case update_chunk_indices_seek (relative_posn + chunk_size')
              (ndims (special_info ar2)) (nt_size (special_info ar2))
              (seek_chunk_indices (special_info ar2)) (seek_pos_chunk (special_info ar2))
              (ddims (special_info ar2)) of
        None \<Rightarrow> (Inl Undefined_behaviour, ar2)
      | Some (sbi, spb) \<Rightarrow>
          (Inr chunk_size',
           ar2\<lparr>special_info :=
                 (special_info ar2)\<lparr>seek_chunk_indices := sbi, seek_pos_chunk := spb\<rparr>\<rparr>)))))))))"

fun HMCPwrite_loop ::
  "nat \<Rightarrow> accrec_t \<Rightarrow> int32 \<Rightarrow> uint8 list \<Rightarrow> int32 \<Rightarrow> int32 \<Rightarrow> (herr + int32) \<times> accrec_t"
where
  "HMCPwrite_loop 0 access_rec write_len datap bytes_written relative_posn =
     (if bytes_written < write_len then (Inl Out_of_fuel, access_rec)
      else (Inr bytes_written, access_rec))"
| "HMCPwrite_loop (Suc fuel) access_rec write_len datap bytes_written relative_posn =
     (if bytes_written < write_len
      then (case HMCPwrite_step access_rec write_len datap bytes_written relative_posn of
              (Inl e, ar1) \<Rightarrow> (Inl e, ar1)
            | (Inr chunk_size', ar1) \<Rightarrow>
                HMCPwrite_loop fuel ar1 write_len datap (bytes_written + chunk_size')
                  (relative_posn + chunk_size'))
      else (Inr bytes_written, access_rec))"

text \<open>\<^verbatim>\<open>HMCPwrite\<close>. The result is the return value and the access record after the
  call.\<close>

definition HMCPwrite ::
  "nat \<Rightarrow> accrec_t \<Rightarrow> int32 \<Rightarrow> uint8 list \<Rightarrow> (herr + int32) \<times> accrec_t"
where
  "HMCPwrite fuel access_rec len datap =
     (let info = special_info access_rec in
      if len \<le> 0 then (Inl DFE_RANGE, access_rec)
      else if BADFREC (file_rec access_rec) then (Inl DFE_INTERNAL, access_rec)
      else
        (case update_chunk_indices_seek (posn access_rec) (ndims info) (nt_size info)
                (seek_chunk_indices info) (seek_pos_chunk info) (ddims info) of
           None \<Rightarrow> (Inl Undefined_behaviour, access_rec)
         | Some (sbi, spb) \<Rightarrow>
             (case HMCPwrite_loop fuel
                     (access_rec\<lparr>special_info :=
                         info\<lparr>seek_chunk_indices := sbi, seek_pos_chunk := spb\<rparr>\<rparr>)
                     len datap 0 (posn access_rec) of
                (Inl e, ar1) \<Rightarrow> (Inl e, ar1)
              | (Inr bytes_written, ar1) \<Rightarrow>
                  (Inr bytes_written, ar1\<lparr>posn := posn ar1 + bytes_written\<rparr>))))"

text \<open>The loop of \<^verbatim>\<open>HMCreadChunk\<close> and \<^verbatim>\<open>HMCwriteChunk\<close> that copies the origin to the
  seek indices and sets the position in the chunk to its beginning.\<close>

definition seek_to_origin ::
  "int32 \<Rightarrow> int32 list \<Rightarrow> int32 list \<Rightarrow> int32 list \<Rightarrow> (int32 list \<times> int32 list) option"
where
  "seek_to_origin n org sbi spb =
     (if int (length org) < n \<or> int (length sbi) < n \<or> int (length spb) < n then None
      else Some (fold (\<lambda>i (sbi', spb'). (sbi'[i := org ! i], spb'[i := 0])) [0..<nat n]
                   (sbi, spb)))"

text \<open>The tail of \<^verbatim>\<open>HMCreadChunk\<close> and \<^verbatim>\<open>HMCwriteChunk\<close> after the page is back in
  the cache: the position after the chunk.\<close>

definition chunk_posn_after :: "accrec_t \<Rightarrow> int32 \<Rightarrow> (herr + int32) \<times> accrec_t" where
  "chunk_posn_after access_rec bytes_done =
     (let info = special_info access_rec in
      case update_seek_pos_chunk bytes_done (ndims info) (nt_size info) (seek_pos_chunk info)
             (ddims info) of
        None \<Rightarrow> (Inl Undefined_behaviour, access_rec)
      | Some spb \<Rightarrow>
      (case compute_chunk_to_array (seek_chunk_indices info) spb (seek_user_indices info)
              (ndims info) (ddims info) of
        None \<Rightarrow> (Inl Undefined_behaviour, access_rec)
      | Some sui \<Rightarrow>
      (case compute_array_to_seek sui (nt_size info) (ndims info) (ddims info) of
        None \<Rightarrow> (Inl Undefined_behaviour, access_rec)
      | Some relative_posn \<Rightarrow>
          (Inr bytes_done,
           access_rec\<lparr>special_info := info\<lparr>seek_pos_chunk := spb, seek_user_indices := sui\<rparr>,
                       posn := relative_posn\<rparr>))))"

text \<open>\<^verbatim>\<open>HMCreadChunk\<close>. \<open>FAIL\<close> without an error code is \<open>HE_REPORT []\<close>.\<close>

definition HMCreadChunk ::
  "accrec_t \<Rightarrow> int32 list \<Rightarrow> (herr + int32) \<times> uint8 list \<times> accrec_t"
where
  "HMCreadChunk access_rec org =
     (if BADFREC (file_rec access_rec) then (Inl DFE_INTERNAL, [], access_rec)
      else if f_access (file_rec access_rec) AND DFACC_READ = 0
      then (Inl DFE_DENIED, [], access_rec)
      else if special access_rec \<noteq> SPECIAL_CHUNKED then (Inl (HE_REPORT []), [], access_rec)
      else
        (let info = special_info access_rec;
             read_len = chunk_size info * nt_size info
         in case seek_to_origin (ndims info) org (seek_chunk_indices info) (seek_pos_chunk info) of
              None \<Rightarrow> (Inl Undefined_behaviour, [], access_rec)
            | Some (sbi, spb) \<Rightarrow>
            (let ar0 = access_rec\<lparr>special_info :=
                          info\<lparr>seek_chunk_indices := sbi, seek_pos_chunk := spb\<rparr>\<rparr>
             in case calculate_chunk_num (ndims info) org (ddims info) of
                  None \<Rightarrow> (Inl Undefined_behaviour, [], ar0)
                | Some chunk_num \<Rightarrow>
                (case mcache_get ar0 (chunk_num + 1) 0 of
                   (None, ar1) \<Rightarrow> (Inl (HE_REPORT ''failed to find chunk record''), [], ar1)
                 | (Some chk_data, ar1) \<Rightarrow>
                 (case memcpy_from chk_data 0 read_len of
                    None \<Rightarrow> (Inl Undefined_behaviour, [], ar1)
                  | Some bytes \<Rightarrow>
                  (case mcache_put ar1 (chunk_num + 1) chk_data 0 of
                     (False, ar2) \<Rightarrow>
                       (Inl (HE_REPORT ''failed to put chunk back in cache''), bytes, ar2)
                   | (True, ar2) \<Rightarrow>
                       (case chunk_posn_after ar2 read_len of
                          (r, ar3) \<Rightarrow> (r, bytes, ar3))))))))"

text \<open>\<^verbatim>\<open>HMCwriteChunk\<close>.\<close>

definition HMCwriteChunk ::
  "accrec_t \<Rightarrow> int32 list \<Rightarrow> uint8 list \<Rightarrow> (herr + int32) \<times> accrec_t"
where
  "HMCwriteChunk access_rec org datap =
     (if BADFREC (file_rec access_rec) then (Inl DFE_INTERNAL, access_rec)
      else if f_access (file_rec access_rec) AND DFACC_WRITE = 0
      then (Inl DFE_DENIED, access_rec)
      else if special access_rec \<noteq> SPECIAL_CHUNKED then (Inl (HE_REPORT []), access_rec)
      else
        (let info = special_info access_rec;
             write_len = chunk_size info * nt_size info
         in case seek_to_origin (ndims info) org (seek_chunk_indices info) (seek_pos_chunk info) of
              None \<Rightarrow> (Inl Undefined_behaviour, access_rec)
            | Some (sbi, spb) \<Rightarrow>
            (let ar0 = access_rec\<lparr>special_info :=
                          info\<lparr>seek_chunk_indices := sbi, seek_pos_chunk := spb\<rparr>\<rparr>
             in case calculate_chunk_num (ndims info) org (ddims info) of
                  None \<Rightarrow> (Inl Undefined_behaviour, ar0)
                | Some chunk_num \<Rightarrow>
                (case mcache_get
                        (if chk_tree info chunk_num = None then chunk_insert ar0 chunk_num org
                         else ar0)
                        (chunk_num + 1) 0 of
                   (None, ar1) \<Rightarrow> (Inl (HE_REPORT ''failed to find chunk record''), ar1)
                 | (Some chk_data, ar1) \<Rightarrow>
                 (case memcpy_from datap 0 write_len of
                    None \<Rightarrow> (Inl Undefined_behaviour, ar1)
                  | Some bytes \<Rightarrow>
                  (case memcpy_into chk_data 0 bytes of
                     None \<Rightarrow> (Inl Undefined_behaviour, ar1)
                   | Some chk_data' \<Rightarrow>
                   (case mcache_put ar1 (chunk_num + 1) chk_data' MCACHE_DIRTY of
                      (False, ar2) \<Rightarrow>
                        (Inl (HE_REPORT ''failed to put chunk back in cache''), ar2)
                    | (True, ar2) \<Rightarrow> chunk_posn_after ar2 write_len)))))))"

text \<open>\<^verbatim>\<open>HMCsetMaxcache\<close>.\<close>

definition HMCsetMaxcache :: "accrec_t \<Rightarrow> int32 \<Rightarrow> int32 \<Rightarrow> (herr + int32) \<times> accrec_t" where
  "HMCsetMaxcache access_rec maxc fl =
     (if maxc < 1 then (Inl DFE_ARGS, access_rec)
      else if special access_rec = SPECIAL_CHUNKED
      then (case mcache_set_maxcache (chk_cache (special_info access_rec)) maxc of
              (r, mp) \<Rightarrow> (Inr r, set_cache access_rec mp))
      else (Inl (HE_REPORT []), access_rec))"

text \<open>\<^verbatim>\<open>HMCPgetnumrecs\<close>.\<close>

definition HMCPgetnumrecs :: "accrec_t \<Rightarrow> int32" where
  "HMCPgetnumrecs access_rec = num_recs (special_info access_rec)"

subsection \<open>Creation\<close>

text \<open>\<^verbatim>\<open>HCHUNK_DEF\<close>: the caller's description of the chunked element, as far as
  \<^verbatim>\<open>HMCcreate\<close> reads it without compression.\<close>

record HCHUNK_DEF =
  c_chunk_size :: int32
  c_nt_size :: int32
  c_num_dims :: int32
  c_pdims :: "DIM_DEF list"
  c_chunk_flag :: int32

text \<open>Modelled from the spec: \<^verbatim>\<open>mcache_open\<close> (section 4.1), a cache with no page
  resident.\<close>

definition mcache_open :: "int32 \<Rightarrow> int32 \<Rightarrow> int32 \<Rightarrow> MCACHE" where
  "mcache_open pgsize maxc np = \<lparr>lqh = [], maxcache = maxc, npages = np, pagesize = pgsize\<rparr>"

text \<open>
  \<^verbatim>\<open>HMCcreate\<close>, as far as it builds the access record and the information record: the
  checks of the file record, the fields of \<^verbatim>\<open>info\<close>, the geometry loop, the empty
  directory index and the cache. The creation of the chunk table and the header written to
  the file are left out. \<open>chunks_needed\<close> is the product of \<open>num_chunks\<close> over all
  dimensions but the first.
\<close>

definition HMCcreate :: "filerec_t \<Rightarrow> int32 \<Rightarrow> uint8 list \<Rightarrow> HCHUNK_DEF \<Rightarrow> herr + accrec_t" where
  "HMCcreate f fvl fv chk_array =
     (if BADFREC f then Inl DFE_ARGS
      else if f_access f AND DFACC_WRITE = 0 then Inl DFE_DENIED
      else
        (case HMCcreate_geometry (c_pdims chk_array) [0..<nat (c_num_dims chk_array)]
                (replicate (nat (c_num_dims chk_array)) create_dim_rec) 1 1 of
           None \<Rightarrow> Inl Undefined_behaviour
         | Some (dd, np, data_len) \<Rightarrow>
             Inr \<lparr>access = 3, special = SPECIAL_CHUNKED, posn = 0, file_rec = f,
                  special_info =
                    \<lparr>attached = 1, sp_flag = c_chunk_flag chk_array, elt_length = data_len,
                     chunk_size = c_chunk_size chk_array, nt_size = c_nt_size chk_array,
                     ndims = c_num_dims chk_array, ddims = dd,
                     fill_val_len = fvl, fill_val = take (nat fvl) fv,
                     seek_chunk_indices = replicate (nat (c_num_dims chk_array)) 0,
                     seek_pos_chunk = replicate (nat (c_num_dims chk_array)) 0,
                     seek_user_indices = replicate (nat (c_num_dims chk_array)) 0,
                     chk_tree = Map.empty,
                     chk_cache = mcache_open (c_chunk_size chk_array * c_nt_size chk_array)
                                   (prod_list (map num_chunks (tl dd))) np,
                     num_recs = 0\<rparr>\<rparr>))"

subsection \<open>Sequences of calls\<close>

datatype call =
    Seek int32 int32
  | Read int32
  | Write int32 "uint8 list"
  | ReadChunk "int32 list"
  | WriteChunk "int32 list" "uint8 list"
  | SetMaxcache int32
  | Getnumrecs

fun run_call :: "nat \<Rightarrow> accrec_t \<Rightarrow> call \<Rightarrow> (herr + int32) \<times> accrec_t" where
  "run_call fuel ar (Seek offset whence) = HMCPseek ar offset whence"
| "run_call fuel ar (Read len) = (case HMCPread fuel ar len of (r, out, ar') \<Rightarrow> (r, ar'))"
| "run_call fuel ar (Write len datap) = HMCPwrite fuel ar len datap"
| "run_call fuel ar (ReadChunk org) = (case HMCreadChunk ar org of (r, out, ar') \<Rightarrow> (r, ar'))"
| "run_call fuel ar (WriteChunk org datap) = HMCwriteChunk ar org datap"
| "run_call fuel ar (SetMaxcache n) = HMCsetMaxcache ar n 0"
| "run_call fuel ar Getnumrecs = (Inr 0, ar)"

fun run_calls :: "nat \<Rightarrow> accrec_t \<Rightarrow> call list \<Rightarrow> (herr + int32) list \<times> accrec_t" where
  "run_calls fuel ar [] = ([], ar)"
| "run_calls fuel ar (c # cs) =
     (case run_call fuel ar c of (r, ar1) \<Rightarrow>
        (case run_calls fuel ar1 cs of (rs, ar2) \<Rightarrow> (r # rs, ar2)))"

subsection \<open>The element of the scenarios\<close>

definition scenario_file :: filerec_t where
  "scenario_file =
     \<lparr>f_access = 3, refcount = 1, maxref = 0, elements = Map.empty, chktbl = [],
      faults = (\<lambda>n. False), calls = []\<rparr>"

definition scenario_def :: HCHUNK_DEF where
  "scenario_def =
     \<lparr>c_chunk_size = 16, c_nt_size = 4, c_num_dims = 2, c_pdims = scenario_A_pdims,
      c_chunk_flag = 0\<rparr>"

definition scenario_elt :: accrec_t where
  "scenario_elt =
     \<lparr>access = 3, special = SPECIAL_CHUNKED, posn = 0, file_rec = scenario_file,
      special_info =
        \<lparr>attached = 1, sp_flag = 0, elt_length = 100, chunk_size = 16, nt_size = 4,
         ndims = 2, ddims = scenario_A_ddims, fill_val_len = 4, fill_val = [0, 0, 0, 0],
         seek_chunk_indices = [0, 0], seek_pos_chunk = [0, 0], seek_user_indices = [0, 0],
         chk_tree = Map.empty,
         chk_cache = \<lparr>lqh = [], maxcache = 3, npages = 9, pagesize = 64\<rparr>,
         num_recs = 0\<rparr>\<rparr>"

subsection \<open>Predicates of the statements\<close>




text \<open>What a call of the cache may change in an access record: the file, the directory
  entries under the chunk numbers already in the index, and the cache itself.\<close>

definition cache_frame :: "accrec_t \<Rightarrow> accrec_t \<Rightarrow> bool" where
  "cache_frame ar ar' =
     (ar'\<lparr>file_rec := file_rec ar,
          special_info := (special_info ar')\<lparr>chk_tree := chk_tree (special_info ar),
                                              chk_cache := chk_cache (special_info ar)\<rparr>\<rparr> = ar
      \<and> dom (chk_tree (special_info ar')) = dom (chk_tree (special_info ar)))"





section \<open>The SZIP adapter (cszip.c)\<close>

text \<open>
  The adapter buffers the bytes of one compressed element and hands them to szlib when the
  element is closed (\<^verbatim>\<open>HCIcszip_term\<close>); on the first read it loads the stored form and
  decodes it (\<^verbatim>\<open>HCIcszip_decode\<close>).

  \<^item> szlib is an external library. Its two functions \<^verbatim>\<open>SZ_BufftoBuffCompress\<close> and
    \<^verbatim>\<open>SZ_BufftoBuffDecompress\<close> are parameters of the embedding: each takes the source
    bytes, the capacity of the destination and the parameters, and returns its status, the
    size it reports and the bytes it stored in the destination.
  \<^item> \<^verbatim>\<open>malloc\<close> never fails here; what a fresh block holds is the parameter \<open>junk\<close>.
  \<^item> The two build switches \<^verbatim>\<open>H4_HAVE_LIBSZ\<close> and \<^verbatim>\<open>H4_HAVE_SZIP_ENCODER\<close> are
    the fields \<open>have_libsz\<close> and \<open>have_szip_encoder\<close>.
  \<^item> The element behind \<^verbatim>\<open>info->aid\<close> lives in the object store of the file record,
    under its tag and ref; the adapter reads and writes it from its start
    (\<^verbatim>\<open>HCIcszip_init\<close> seeks there).
\<close>

definition SUCCEED :: int32 where "SUCCEED = 0"
definition SZ_OK :: int32 where "SZ_OK = 0"
definition SZ_OUTBUF_FULL :: int32 where "SZ_OUTBUF_FULL = 2"


datatype szip_state_t = SZIP_INIT | SZIP_RUN | SZIP_TERM

datatype szip_dirty_t = SZIP_CLEAN | SZIP_DIRTY

text \<open>\<^verbatim>\<open>comp_coder_szip_info_t\<close>. The fields \<^verbatim>\<open>buffer\<close> and \<^verbatim>\<open>offset\<close> are
  \<open>szip_buffer\<close> and \<open>szip_offset\<close> here; a \<^verbatim>\<open>NULL\<close> buffer is \<open>None\<close>.\<close>

record comp_coder_szip_info_t =
  pixels :: int32
  pixels_per_scanline :: int32
  options_mask :: int32
  bits_per_pixel :: int32
  pixels_per_block :: int32
  szip_buffer :: "uint8 list option"
  buffer_pos :: int32
  buffer_size :: int32
  szip_offset :: int32
  szip_state :: szip_state_t
  szip_dirty :: szip_dirty_t

text \<open>\<^verbatim>\<open>compinfo_t\<close>: the access identifier of the stored element (\<open>None\<close> when
  \<^verbatim>\<open>HAatom_object\<close> finds no access record for it), the length of the element and the
  state of the coder.\<close>

record compinfo_t =
  comp_aid :: "(uint16 \<times> uint16) option"
  comp_length :: int32
  szip_info :: comp_coder_szip_info_t

text \<open>\<^verbatim>\<open>SZ_com_t\<close>: the parameters handed to szlib.\<close>

record SZ_com_t =
  sz_options_mask :: int32
  sz_bits_per_pixel :: int32
  sz_pixels_per_block :: int32
  sz_pixels_per_scanline :: int32

type_synonym sz_codec = "uint8 list \<Rightarrow> int32 \<Rightarrow> SZ_com_t \<Rightarrow> int32 \<times> int32 \<times> uint8 list"

record sz_env =
  have_libsz :: bool
  have_szip_encoder :: bool
  SZ_encoder_enabled :: bool
  SZ_BufftoBuffCompress :: sz_codec
  SZ_BufftoBuffDecompress :: sz_codec
  junk :: "nat \<Rightarrow> uint8"

definition malloc_block :: "sz_env \<Rightarrow> int32 \<Rightarrow> uint8 list" where
  "malloc_block env n = map (junk env) [0..<nat n]"

text \<open>
  Modelled from the spec: \<^verbatim>\<open>INT32ENCODE\<close> and \<^verbatim>\<open>INT32DECODE\<close> (macros of
  \<^verbatim>\<open>hdfi.h\<close>, which is not under \<^verbatim>\<open>src/\<close>), the four-byte length field of section 4.7,
  most significant byte first as everywhere in an HDF file.
\<close>

definition INT32ENCODE :: "int32 \<Rightarrow> uint8 list" where
  "INT32ENCODE i =
     [word_of_int (drop_bit 24 i), word_of_int (drop_bit 16 i),
      word_of_int (drop_bit 8 i), word_of_int i]"


text \<open>The bytes of one pixel: \<^verbatim>\<open>(bits_per_pixel + 7) >> 3\<close>, and 4 where that is 3.\<close>

definition bytes_per_pixel :: "comp_coder_szip_info_t \<Rightarrow> int32" where
  "bytes_per_pixel s =
     (let b = drop_bit 3 (bits_per_pixel s + 7) in if b = 3 then 4 else b)"

text \<open>The block that ends every path of the adapter: the buffer is freed once nothing
  is left in it.\<close>

definition free_if_empty :: "comp_coder_szip_info_t \<Rightarrow> comp_coder_szip_info_t" where
  "free_if_empty s = (if buffer_size s = 0 then s\<lparr>szip_buffer := None\<rparr> else s)"

text \<open>
  Modelled from the spec: \<^verbatim>\<open>HTPinquire\<close> and, for an element stored in linked blocks
  (bit \<^verbatim>\<open>0x4000\<close> of the tag), \<^verbatim>\<open>Hstartread\<close>, \<^verbatim>\<open>HDinqblockinfo\<close> and
  \<^verbatim>\<open>Hendaccess\<close>: the length of the stored element, which is the number of its bytes
  in the object store of section 6. \<open>None\<close> is a failure of one of the calls.
\<close>

definition stored_length :: "filerec_t \<Rightarrow> uint16 \<times> uint16 \<Rightarrow> int32 option \<times> filerec_t" where
  "stored_length f aid =
     (case elements f aid of
        None \<Rightarrow> (None, f)
      | Some e \<Rightarrow>
          if fst aid AND 0x4000 \<noteq> 0 then
            (case Hstartread f (fst aid) (snd aid) of (new_aid, f1) \<Rightarrow>
               case Hendaccess f1 new_aid of (ok, f2) \<Rightarrow>
                 (if new_aid = None then None else Some (int (length e)), f2))
          else (Some (int (length e)), f))"


text \<open>
  \<^verbatim>\<open>HCIcszip_term\<close>. The result of \<^verbatim>\<open>Hwrite\<close> is not looked at in the source. The two
  blocks that build the raw form are the same text in the source, up to the call of
  \<^verbatim>\<open>Hwrite\<close>, which only the second one makes; \<open>raw_form\<close> is what they build.
\<close>

definition raw_form :: "uint8 list \<Rightarrow> int32 \<Rightarrow> uint8 list \<Rightarrow> uint8 list option" where
  "raw_form out_buffer pos b =
     (case memcpy_from b 0 pos of
        None \<Rightarrow> None
      | Some bytes \<Rightarrow>
          (case memcpy_into out_buffer 0 (1 # INT32ENCODE pos) of
             None \<Rightarrow> None
           | Some ob1 \<Rightarrow> memcpy_into ob1 5 bytes))"

definition HCIcszip_term ::
  "sz_env \<Rightarrow> filerec_t \<Rightarrow> compinfo_t \<Rightarrow> (herr + int32) \<times> filerec_t \<times> compinfo_t"
where
  "HCIcszip_term env f info =
     (let s = szip_info info in
      if \<not> have_szip_encoder env then (Inl DFE_CANTCOMP, f, info)
      else if szip_state s \<noteq> SZIP_RUN then (Inr SUCCEED, f, info)
      else if szip_dirty s \<noteq> SZIP_DIRTY
        then (Inr SUCCEED, f, info\<lparr>szip_info := free_if_empty s\<rparr>)
      else
        let s1 = s\<lparr>szip_state := SZIP_TERM\<rparr>;
            info1 = info\<lparr>szip_info := s1\<rparr>;
            clean = info\<lparr>szip_info := free_if_empty (s1\<lparr>szip_dirty := SZIP_CLEAN\<rparr>)\<rparr>
        in case comp_aid info of
             None \<Rightarrow> (Inl DFE_INTERNAL, f, info1)
           | Some aid \<Rightarrow>
        (case stored_length f aid of
           (None, f1) \<Rightarrow> (Inl DFE_INTERNAL, f1, info1)
         | (Some current_size, f1) \<Rightarrow>
        let out_buffer_size = max 1024 (pixels s * 2 * bytes_per_pixel s + 5);
            sz_param = \<lparr>sz_options_mask = options_mask s,
                        sz_bits_per_pixel = bits_per_pixel s,
                        sz_pixels_per_block = pixels_per_block s,
                        sz_pixels_per_scanline = pixels_per_scanline s\<rparr>
        in case szip_buffer s of
             None \<Rightarrow> (Inl Undefined_behaviour, f1, info1)
           | Some b \<Rightarrow>
        (case memcpy_from b 0 (buffer_pos s) of
           None \<Rightarrow> (Inl Undefined_behaviour, f1, info1)
         | Some source \<Rightarrow>
        (case SZ_BufftoBuffCompress env source (out_buffer_size - 5) sz_param of
           (status, size_out, dest) \<Rightarrow>
        (case memcpy_into (0 # drop 1 (malloc_block env out_buffer_size)) 5 dest of
           None \<Rightarrow> (Inl Undefined_behaviour, f1, info1)
         | Some out_buffer \<Rightarrow>
        if status \<noteq> SZ_OK then
          (if status = 2 then
             (case raw_form out_buffer (buffer_pos s) b of
                None \<Rightarrow> (Inl Undefined_behaviour, f1, info1)
              | Some ob \<Rightarrow> (Inr SUCCEED, f1, clean))
           else (Inl DFE_CENCODE, f1, clean))
        else if size_out > pixels s * bytes_per_pixel s then
          (case raw_form out_buffer (buffer_pos s) b of
             None \<Rightarrow> (Inl Undefined_behaviour, f1, info1)
           | Some ob \<Rightarrow>
               (case Hwrite f1 aid (buffer_pos s + 5) ob of (ok, f2) \<Rightarrow>
                  (Inr SUCCEED, f2, clean)))
        else if current_size > 0 \<and> size_out + 5 < current_size then
          (case memcpy_from out_buffer 5 size_out of
             None \<Rightarrow> (Inl Undefined_behaviour, f1, info1)
           | Some compressed \<Rightarrow>
               (case memcpy_into (malloc_block env current_size) 0
                       (0 # INT32ENCODE size_out @ compressed) of
                  None \<Rightarrow> (Inl Undefined_behaviour, f1, info1)
                | Some ob \<Rightarrow>
                    (case Hwrite f1 aid current_size ob of (ok, f2) \<Rightarrow>
                       (Inr SUCCEED, f2, clean))))
        else
          (case memcpy_into out_buffer 0 (0 # INT32ENCODE size_out) of
             None \<Rightarrow> (Inl Undefined_behaviour, f1, info1)
           | Some ob \<Rightarrow>
               (case Hwrite f1 aid (size_out + 5) ob of (ok, f2) \<Rightarrow>
                  (Inr SUCCEED, f2, clean))))))))"







section \<open>Arithmetic of mixed-radix numbers\<close>

lemma zdiv_less_of_less_mult:
  fixes r v p :: int
  assumes r: "0 < r" and lt: "v < p * r"
  shows "v div r < p"
proof (rule ccontr)
  assume "\<not> v div r < p"
  then have "p * r \<le> (v div r) * r" using r by (intro mult_right_mono) auto
  moreover have "0 \<le> v mod r" using r by simp
  moreover have "v = (v div r) * r + v mod r" by simp
  ultimately show False using lt by linarith
qed



lemma length_radix_digits [simp]: "length (radix_digits rs k v) = k"
  by (induction k arbitrary: v) auto

lemma radix_digits_nth:
  "i < k \<Longrightarrow> k \<le> length rs \<Longrightarrow> \<forall>j<k. 0 < rs ! j \<Longrightarrow>
   0 \<le> radix_digits rs k v ! i \<and> radix_digits rs k v ! i < rs ! i"
proof (induction k arbitrary: v)
  case 0
  then show ?case by simp
next
  case (Suc k)
  show ?case
  proof (cases "i = k")
    case True
    then show ?thesis using Suc.prems by (simp add: nth_append)
  next
    case False
    then have ik: "i < k" using Suc.prems by simp
    moreover have "k \<le> length rs" "\<forall>j<k. 0 < rs ! j" using Suc.prems by auto
    ultimately have "0 \<le> radix_digits rs k (v div rs ! k) ! i
        \<and> radix_digits rs k (v div rs ! k) ! i < rs ! i"
      by (rule Suc.IH)
    then show ?thesis using ik by (simp add: nth_append)
  qed
qed

lemma mixed_radix_cong:
  "\<forall>i<k. ds ! i = es ! i \<Longrightarrow> mixed_radix rs ds k = mixed_radix rs es k"
  by (induction k) auto

lemma mixed_radix_digits:
  "k \<le> length rs \<Longrightarrow> \<forall>j<k. 0 < rs ! j \<Longrightarrow> 0 \<le> v \<Longrightarrow> v < prod_list (take k rs) \<Longrightarrow>
   mixed_radix rs (radix_digits rs k v) k = v"
proof (induction k arbitrary: v)
  case 0
  then show ?case by simp
next
  case (Suc k)
  let ?r = "rs ! k"
  have r: "0 < ?r" using Suc.prems by simp
  have klt: "k < length rs" using Suc.prems by simp
  have "v < prod_list (take k rs) * ?r" using Suc.prems klt by (simp add: take_Suc_conv_app_nth)
  then have "v div ?r < prod_list (take k rs)" using r by (rule zdiv_less_of_less_mult[rotated])
  moreover have "0 \<le> v div ?r" using Suc.prems r by (simp add: pos_imp_zdiv_nonneg_iff)
  ultimately have ih: "mixed_radix rs (radix_digits rs k (v div ?r)) k = v div ?r"
    using Suc.IH[of "v div ?r"] Suc.prems by simp
  have "mixed_radix rs (radix_digits rs k (v div ?r) @ [v mod ?r]) k
        = mixed_radix rs (radix_digits rs k (v div ?r)) k"
    by (rule mixed_radix_cong) (simp add: nth_append)
  then show ?case using ih by (simp add: nth_append)
qed

section \<open>The chunk number\<close>





section \<open>The byte offset round trip\<close>

lemma sdiv_nonneg: "0 \<le> a \<Longrightarrow> 0 < b \<Longrightarrow> a sdiv b = a div (b::int)"
  by (simp add: signed_divide_int_def sgn_if)

lemma smod_nonneg: "0 \<le> a \<Longrightarrow> 0 < b \<Longrightarrow> a smod b = a mod (b::int)"
  by (simp add: smod_mod_positive)

lemma update_chunk_indices_seek_loop_digits:
  assumes "k \<le> length dd" "k \<le> length sbi" "k \<le> length spb"
    and "\<forall>i<k. 0 < dim_length (dd ! i) \<and> 0 < chunk_length (dd ! i)" and "0 \<le> stmp"
  shows "\<exists>sbi' spb'. update_chunk_indices_seek_loop dd k stmp sbi spb = Some (sbi', spb')
     \<and> length sbi' = length sbi \<and> length spb' = length spb
     \<and> (\<forall>i<k. sbi' ! i = radix_digits (map dim_length dd) k stmp ! i div chunk_length (dd ! i)
            \<and> spb' ! i = radix_digits (map dim_length dd) k stmp ! i mod chunk_length (dd ! i))
     \<and> (\<forall>i\<ge>k. sbi' ! i = sbi ! i \<and> spb' ! i = spb ! i)"
  using assms
proof (induction k arbitrary: stmp sbi spb)
  case 0
  then show ?case by simp
next
  case (Suc k)
  let ?d = "dim_length (dd ! k)" and ?c = "chunk_length (dd ! k)"
  let ?g = "stmp mod ?d"
  have dc: "0 < ?d" "0 < ?c" using Suc.prems by auto
  have g: "0 \<le> ?g" using dc by simp
  have q: "0 \<le> stmp div ?d" using Suc.prems dc by (simp add: pos_imp_zdiv_nonneg_iff)
  have step: "update_chunk_indices_seek_loop dd (Suc k) stmp sbi spb
      = update_chunk_indices_seek_loop dd k (stmp div ?d) (sbi[k := ?g div ?c]) (spb[k := ?g mod ?c])"
    using dc Suc.prems(5) g by (simp add: sdiv_nonneg smod_nonneg)
  have "\<exists>sbi' spb'. update_chunk_indices_seek_loop dd k (stmp div ?d) (sbi[k := ?g div ?c]) (spb[k := ?g mod ?c]) = Some (sbi', spb')
     \<and> length sbi' = length (sbi[k := ?g div ?c]) \<and> length spb' = length (spb[k := ?g mod ?c])
     \<and> (\<forall>i<k. sbi' ! i = radix_digits (map dim_length dd) k (stmp div ?d) ! i div chunk_length (dd ! i)
            \<and> spb' ! i = radix_digits (map dim_length dd) k (stmp div ?d) ! i mod chunk_length (dd ! i))
     \<and> (\<forall>i\<ge>k. sbi' ! i = (sbi[k := ?g div ?c]) ! i \<and> spb' ! i = (spb[k := ?g mod ?c]) ! i)"
    using Suc.prems q by (intro Suc.IH) auto
  then obtain sbi' spb' where
    r: "update_chunk_indices_seek_loop dd k (stmp div ?d) (sbi[k := ?g div ?c]) (spb[k := ?g mod ?c]) = Some (sbi', spb')"
    and l: "length sbi' = length sbi" "length spb' = length spb"
    and lo: "\<forall>i<k. sbi' ! i = radix_digits (map dim_length dd) k (stmp div ?d) ! i div chunk_length (dd ! i)
            \<and> spb' ! i = radix_digits (map dim_length dd) k (stmp div ?d) ! i mod chunk_length (dd ! i)"
    and hi: "\<forall>i\<ge>k. sbi' ! i = (sbi[k := ?g div ?c]) ! i \<and> spb' ! i = (spb[k := ?g mod ?c]) ! i"
    by auto
  have kk: "k < length dd" "k < length sbi" "k < length spb" using Suc.prems by auto
  have at_k: "sbi' ! k = ?g div ?c" "spb' ! k = ?g mod ?c" using hi kk by auto
  have "\<forall>i<Suc k. sbi' ! i = radix_digits (map dim_length dd) (Suc k) stmp ! i div chunk_length (dd ! i)
            \<and> spb' ! i = radix_digits (map dim_length dd) (Suc k) stmp ! i mod chunk_length (dd ! i)"
    using lo at_k kk by (auto simp: less_Suc_eq nth_append)
  moreover have "\<forall>i\<ge>Suc k. sbi' ! i = sbi ! i \<and> spb' ! i = spb ! i" using hi by auto
  ultimately show ?case using step r l by auto
qed

lemma fold_update_upt:
  "n \<le> length arr \<Longrightarrow> fold (\<lambda>j a. a[j := f j]) [0..<n] arr = map f [0..<n] @ drop n arr"
proof (induction n)
  case 0
  then show ?case by simp
next
  case (Suc n)
  then have "fold (\<lambda>j a. a[j := f j]) [0..<Suc n] arr = (map f [0..<n] @ drop n arr)[n := f n]"
    by simp
  also have "\<dots> = map f [0..<n] @ (drop n arr)[0 := f n]" by (simp add: list_update_append)
  also have "(drop n arr)[0 := f n] = f n # drop (Suc n) arr"
    using Suc.prems by (simp add: Cons_nth_drop_Suc[symmetric])
  finally show ?case by simp
qed

lemma compute_array_to_seek_loop_eq:
  "k < length dd \<Longrightarrow>
   compute_array_to_seek_loop dd arr k cnum acc =
     acc + cnum * dim_length (dd ! k) * mixed_radix (map dim_length dd) arr k"
proof (induction k arbitrary: cnum acc)
  case 0
  then show ?case by simp
next
  case (Suc j)
  then show ?case by (simp add: Let_def algebra_simps)
qed

lemma compute_array_to_seek_eq:
  assumes "1 \<le> nd" "int (length dd) = nd" "int (length arr) = nd"
  shows "compute_array_to_seek arr nt nd dd =
           Some (mixed_radix (map dim_length dd) arr (nat nd) * nt)"
proof -
  obtain m where m: "nat nd = Suc m" using assms(1) by (cases "nat nd") auto
  have lt: "m < length dd" "m < length arr" using assms m by auto
  show ?thesis
  proof (cases "nd > 1")
    case True
    then show ?thesis using assms m lt
      by (simp add: compute_array_to_seek_def compute_array_to_seek_loop_eq)
  next
    case False
    then have "m = 0" using assms m by auto
    with assms m lt False show ?thesis
      by (simp add: compute_array_to_seek_def)
  qed
qed

lemma last_chunk_no_clamp:
  assumes v: "valid_dim d" and g: "0 \<le> g" "g < dim_length d"
  shows "g div chunk_length d * chunk_length d
          + (if g div chunk_length d = num_chunks d - 1
             then (if g mod chunk_length d > last_chunk_length d then last_chunk_length d
                   else g mod chunk_length d)
             else g mod chunk_length d) = g"
proof -
  let ?c = "chunk_length d" and ?D = "dim_length d"
  have c: "0 < ?c" and D: "0 < ?D" using v by (auto simp: valid_dim_def)
  have m: "g mod ?c < ?c" "0 \<le> g mod ?c" using c by auto
  have "\<not> g mod ?c > last_chunk_length d" if last: "g div ?c = num_chunks d - 1"
  proof (cases "?D mod ?c = 0")
    case True
    then have "last_chunk_length d = ?c" using v c D by (simp add: valid_dim_def smod_nonneg)
    then show ?thesis using m by simp
  next
    case False
    then have l: "last_chunk_length d = ?D mod ?c" and n: "num_chunks d = ?D div ?c + 1"
      using v c D by (simp_all add: valid_dim_def smod_nonneg sdiv_nonneg)
    have "g div ?c = ?D div ?c" using last n by simp
    moreover have "g = g div ?c * ?c + g mod ?c" "?D = ?D div ?c * ?c + ?D mod ?c" by simp_all
    ultimately have "g mod ?c < ?D mod ?c" using g by (metis add_less_cancel_left)
    then show ?thesis using l by simp
  qed
  then have "(if g div ?c = num_chunks d - 1
             then (if g mod ?c > last_chunk_length d then last_chunk_length d else g mod ?c)
             else g mod ?c) = g mod ?c"
    by auto
  moreover have "g div ?c * ?c + g mod ?c = g" by simp
  ultimately show ?thesis by (simp only:)
qed

text \<open>
  Claim C1, as amended. For a geometry of at least one dimension whose records are derived
  as \<^verbatim>\<open>HMCcreate\<close> derives them, a positive element size and a byte offset \<open>x\<close> below
  the logical size, the round trip returns \<open>x\<close> rounded down to a multiple of the element
  size: \<^verbatim>\<open>update_chunk_indices_seek\<close> divides the offset by \<^verbatim>\<open>nt\<close> first. It
  returns \<open>x\<close> itself when the element size divides \<open>x\<close>, on the last chunk of every
  dimension as well.
\<close>

theorem byte_offset_roundtrip_eq:
  assumes nd1: "1 \<le> nd" and len: "int (length dd) = nd"
    and lens: "int (length sbi) = nd" "int (length spb) = nd" "int (length sui) = nd"
    and nt0: "0 < nt" and v: "\<forall>d\<in>set dd. valid_dim d"
    and x: "0 \<le> x" "x < prod_list (map dim_length dd) * nt"
  shows "byte_offset_roundtrip x nd nt sbi spb sui dd = Some (x - x mod nt)
       \<and> (nt dvd x \<longrightarrow> byte_offset_roundtrip x nd nt sbi spb sui dd = Some x)"
proof -
  let ?n = "length dd" and ?rs = "map dim_length dd" and ?s = "x div nt"
  let ?D = "radix_digits ?rs ?n ?s"
  have n: "nat nd = ?n" using len by auto
  have ln: "length sbi = ?n" "length spb = ?n" "length sui = ?n" using lens len by auto
  have s0: "0 \<le> ?s" using x nt0 by (simp add: pos_imp_zdiv_nonneg_iff)
  have s1: "?s < prod_list ?rs" using x nt0 by (intro zdiv_less_of_less_mult) auto
  have vd: "\<forall>i<?n. valid_dim (dd ! i)" using v by auto
  then have pos: "\<forall>i<?n. 0 < dim_length (dd ! i) \<and> 0 < chunk_length (dd ! i)"
    by (auto simp: valid_dim_def)
  from update_chunk_indices_seek_loop_digits[of ?n dd sbi spb ?s] pos s0 ln
  obtain sbi' spb' where
    r: "update_chunk_indices_seek_loop dd ?n ?s sbi spb = Some (sbi', spb')"
    and l: "length sbi' = ?n" "length spb' = ?n"
    and dg: "\<forall>i<?n. sbi' ! i = ?D ! i div chunk_length (dd ! i)
                  \<and> spb' ! i = ?D ! i mod chunk_length (dd ! i)"
    by auto
  have u: "update_chunk_indices_seek x nd nt sbi spb dd = Some (sbi', spb')"
    using r nt0 x n len lens by (simp add: update_chunk_indices_seek_def sdiv_nonneg)
  let ?f = "\<lambda>j. sbi' ! j * chunk_length (dd ! j)
                      + (if sbi' ! j = num_chunks (dd ! j) - 1
                         then (if spb' ! j > last_chunk_length (dd ! j)
                               then last_chunk_length (dd ! j)
                               else spb' ! j)
                         else spb' ! j)"
  let ?arr = "map ?f [0..<?n] @ drop ?n sui"
  have c: "compute_chunk_to_array sbi' spb' sui nd dd = Some ?arr"
    using l ln len n by (simp add: compute_chunk_to_array_def fold_update_upt)
  have rpos: "\<forall>j<?n. 0 < ?rs ! j" using pos by simp
  have arr: "\<forall>i<?n. ?arr ! i = ?D ! i"
  proof (intro allI impI)
    fix i assume i: "i < ?n"
    have g: "0 \<le> ?D ! i" "?D ! i < dim_length (dd ! i)"
      using radix_digits_nth[of i ?n ?rs ?s] rpos i by auto
    have "?arr ! i = ?f i" using i by (simp add: nth_append)
    also have "\<dots> = ?D ! i"
    proof -
      have e: "sbi' ! i = ?D ! i div chunk_length (dd ! i)"
        "spb' ! i = ?D ! i mod chunk_length (dd ! i)" using dg i by auto
      show ?thesis unfolding e by (rule last_chunk_no_clamp[OF vd[rule_format, OF i] g])
    qed
    finally show "?arr ! i = ?D ! i" .
  qed
  have "compute_array_to_seek ?arr nt nd dd
          = Some (mixed_radix ?rs ?arr (nat nd) * nt)"
    using nd1 len ln by (intro compute_array_to_seek_eq) auto
  also have "mixed_radix ?rs ?arr (nat nd) = mixed_radix ?rs ?D ?n"
    unfolding n using arr by (rule mixed_radix_cong)
  also have "\<dots> = ?s" using mixed_radix_digits[of ?n ?rs ?s] rpos s0 s1 by simp
  also have "?s * nt = x - x mod nt" by (simp add: minus_mod_eq_div_mult)
  finally have "byte_offset_roundtrip x nd nt sbi spb sui dd = Some (x - x mod nt)"
    using u c by (simp add: byte_offset_roundtrip_def)
  then show ?thesis by (auto simp: mod_eq_0_iff_dvd)
qed

theorem byte_offset_roundtrip_eq_witness:
  "byte_offset_roundtrip 399 2 4 [0, 0] [0, 0] [0, 0] scenario_A_ddims = Some 396
   \<and> byte_offset_roundtrip 396 2 4 [0, 0] [0, 0] [0, 0] scenario_A_ddims = Some 396"
  using byte_offset_roundtrip_eq[of 2 scenario_A_ddims "[0, 0]" "[0, 0]" "[0, 0]" 4 399]
    byte_offset_roundtrip_eq[of 2 scenario_A_ddims "[0, 0]" "[0, 0]" "[0, 0]" 4 396]
  by (simp add: scenario_A_ddims_def valid_dim_def)

text \<open>
  Claim C1 as stated fails for an offset inside an element: with elements of 4 bytes the
  offset 1 of the 10 by 10 array comes back as 0.
\<close>

theorem byte_offset_roundtrip_counterexample:
  "list_all valid_dim scenario_A_ddims
   \<and> (0::int) \<le> 1 \<and> 1 < prod_list (map dim_length scenario_A_ddims) * 4
   \<and> byte_offset_roundtrip 1 2 4 [0, 0] [0, 0] [0, 0] scenario_A_ddims = Some 0
   \<and> byte_offset_roundtrip 1 2 4 [0, 0] [0, 0] [0, 0] scenario_A_ddims \<noteq> Some 1"
  by code_simp



section \<open>The geometry derived by HMCcreate\<close>

lemma ceiling_div_eq:
  fixes a b :: int
  assumes "0 < b"
  shows "\<lceil>real_of_int a / real_of_int b\<rceil> = a div b + (if a mod b = 0 then 0 else 1)"
  using assms by (simp add: ceiling_divide_eq_div zdiv_zminus1_eq_if)

lemma HMCcreate_dim_valid:
  assumes "0 < p_chunk_length pd" "0 \<le> p_dim_length pd"
  shows "\<exists>d. HMCcreate_dim pd d0 = Some d \<and> valid_dim d
     \<and> chunk_length d = p_chunk_length pd
     \<and> dim_length d = (if p_dim_length pd = 0 then p_chunk_length pd else p_dim_length pd)"
  using assms by (auto simp: HMCcreate_dim_def valid_dim_def Let_def)

lemma valid_dim_ceiling:
  assumes "valid_dim d"
  shows "num_chunks d = \<lceil>real_of_int (dim_length d) / real_of_int (chunk_length d)\<rceil>"
    and "last_chunk_length d =
           (if dim_length d mod chunk_length d \<noteq> 0 then dim_length d mod chunk_length d
            else chunk_length d)"
  using assms by (auto simp: valid_dim_def ceiling_div_eq sdiv_nonneg smod_nonneg)

lemma HMCcreate_geometry_nth:
  assumes "distinct js" "\<forall>j\<in>set js. j < length pdims \<and> j < length dd"
    and "\<forall>j\<in>set js. 0 < p_chunk_length (pdims ! j) \<and> 0 \<le> p_dim_length (pdims ! j)"
  shows "\<exists>dd' np' data_len'.
      HMCcreate_geometry pdims js dd np data_len = Some (dd', np', data_len')
      \<and> length dd' = length dd
      \<and> (\<forall>j\<in>set js. HMCcreate_dim (pdims ! j) (dd ! j) = Some (dd' ! j))
      \<and> (\<forall>j. j \<notin> set js \<longrightarrow> dd' ! j = dd ! j)"
  using assms
proof (induction js arbitrary: dd np data_len)
  case Nil
  then show ?case by simp
next
  case (Cons i js)
  from Cons.prems obtain d where d: "HMCcreate_dim (pdims ! i) (dd ! i) = Some d"
    using HMCcreate_dim_valid[of "pdims ! i" "dd ! i"] by auto
  have i: "i < length pdims" "i < length dd" "i \<notin> set js" using Cons.prems by auto
  have "\<exists>dd' np' data_len'.
      HMCcreate_geometry pdims js (dd[i := d]) (np * num_chunks d) (data_len * dim_length d)
        = Some (dd', np', data_len')
      \<and> length dd' = length (dd[i := d])
      \<and> (\<forall>j\<in>set js. HMCcreate_dim (pdims ! j) (dd[i := d] ! j) = Some (dd' ! j))
      \<and> (\<forall>j. j \<notin> set js \<longrightarrow> dd' ! j = dd[i := d] ! j)"
    using Cons.prems by (intro Cons.IH) auto
  then obtain dd' np' data_len' where
    r: "HMCcreate_geometry pdims js (dd[i := d]) (np * num_chunks d) (data_len * dim_length d)
        = Some (dd', np', data_len')"
    and l: "length dd' = length dd"
    and a: "\<forall>j\<in>set js. HMCcreate_dim (pdims ! j) (dd[i := d] ! j) = Some (dd' ! j)"
    and b: "\<forall>j. j \<notin> set js \<longrightarrow> dd' ! j = dd[i := d] ! j"
    by auto
  have "dd' ! i = d" using b i by simp
  moreover have "\<forall>j\<in>set js. HMCcreate_dim (pdims ! j) (dd ! j) = Some (dd' ! j)"
    using a i by (metis nth_list_update_neq)
  moreover have "\<forall>j. j \<notin> set (i # js) \<longrightarrow> dd' ! j = dd ! j" using b by auto
  ultimately show ?case using r l d i by auto
qed


text \<open>
  Claim C3. The geometry loop of \<^verbatim>\<open>HMCcreate\<close>, run on dimension definitions with
  positive chunk lengths and non-negative lengths (length 0 marks an unlimited dimension,
  which takes the chunk length), gives every dimension
  \<open>num_chunks = \<lceil>dim_length / chunk_length\<rceil>\<close> and a last chunk of
  \<open>dim_length mod chunk_length\<close> when that is not zero, of \<open>chunk_length\<close> otherwise.
  For two dimensions of length 10 in chunks of 4 it gives 3 chunks and a last chunk of 2
  along each; the element at (9, 9) is at offset 99, which lies in chunk (2, 2), and that
  chunk has number 8.
\<close>

theorem HMCcreate_geometry_derived:
  assumes "length pdims = n" "length ddims0 = n"
    and "\<forall>pd\<in>set pdims. 0 < p_chunk_length pd \<and> 0 \<le> p_dim_length pd"
  shows "(\<exists>dd np data_len.
            HMCcreate_geometry pdims [0..<n] ddims0 1 1 = Some (dd, np, data_len)
          \<and> length dd = n
          \<and> (\<forall>i<n. chunk_length (dd ! i) = p_chunk_length (pdims ! i)
                \<and> dim_length (dd ! i) =
                     (if p_dim_length (pdims ! i) = 0 then p_chunk_length (pdims ! i)
                      else p_dim_length (pdims ! i))
                \<and> num_chunks (dd ! i) =
                     \<lceil>real_of_int (dim_length (dd ! i)) / real_of_int (chunk_length (dd ! i))\<rceil>
                \<and> last_chunk_length (dd ! i) =
                     (if dim_length (dd ! i) mod chunk_length (dd ! i) \<noteq> 0
                      then dim_length (dd ! i) mod chunk_length (dd ! i)
                      else chunk_length (dd ! i))))
       \<and> HMCcreate_geometry scenario_A_pdims [0..<2] (replicate 2 create_dim_rec) 1 1
           = Some (scenario_A_ddims, 9, 100)
       \<and> compute_array_to_seek [9, 9] 1 2 scenario_A_ddims = Some 99
       \<and> update_chunk_indices_seek 99 2 1 [0, 0] [0, 0] scenario_A_ddims = Some ([2, 2], [1, 1])
       \<and> calculate_chunk_num 2 [2, 2] scenario_A_ddims = Some 8"
proof -
  have pre: "\<forall>j\<in>set [0..<n]. j < length pdims \<and> j < length ddims0"
    "\<forall>j\<in>set [0..<n]. 0 < p_chunk_length (pdims ! j) \<and> 0 \<le> p_dim_length (pdims ! j)"
    using assms by auto
  from HMCcreate_geometry_nth[OF distinct_upt pre, of 1 1]
  obtain dd np data_len where
    r: "HMCcreate_geometry pdims [0..<n] ddims0 1 1 = Some (dd, np, data_len)"
    and l: "length dd = n"
    and d: "\<forall>j\<in>set [0..<n]. HMCcreate_dim (pdims ! j) (ddims0 ! j) = Some (dd ! j)"
    using assms(2) by auto
  have "chunk_length (dd ! i) = p_chunk_length (pdims ! i)
      \<and> dim_length (dd ! i) =
           (if p_dim_length (pdims ! i) = 0 then p_chunk_length (pdims ! i)
            else p_dim_length (pdims ! i))
      \<and> num_chunks (dd ! i) =
           \<lceil>real_of_int (dim_length (dd ! i)) / real_of_int (chunk_length (dd ! i))\<rceil>
      \<and> last_chunk_length (dd ! i) =
           (if dim_length (dd ! i) mod chunk_length (dd ! i) \<noteq> 0
            then dim_length (dd ! i) mod chunk_length (dd ! i)
            else chunk_length (dd ! i))" if i: "i < n" for i
  proof -
    have "0 < p_chunk_length (pdims ! i)" "0 \<le> p_dim_length (pdims ! i)"
      using pre(2) i by auto
    from HMCcreate_dim_valid[OF this, of "ddims0 ! i"] d i
    have v: "valid_dim (dd ! i)" and c: "chunk_length (dd ! i) = p_chunk_length (pdims ! i)"
      and dl: "dim_length (dd ! i) =
           (if p_dim_length (pdims ! i) = 0 then p_chunk_length (pdims ! i)
            else p_dim_length (pdims ! i))"
      by auto
    show ?thesis using valid_dim_ceiling[OF v] c dl by simp
  qed
  then have general: "\<exists>dd np data_len.
            HMCcreate_geometry pdims [0..<n] ddims0 1 1 = Some (dd, np, data_len)
          \<and> length dd = n
          \<and> (\<forall>i<n. chunk_length (dd ! i) = p_chunk_length (pdims ! i)
                \<and> dim_length (dd ! i) =
                     (if p_dim_length (pdims ! i) = 0 then p_chunk_length (pdims ! i)
                      else p_dim_length (pdims ! i))
                \<and> num_chunks (dd ! i) =
                     \<lceil>real_of_int (dim_length (dd ! i)) / real_of_int (chunk_length (dd ! i))\<rceil>
                \<and> last_chunk_length (dd ! i) =
                     (if dim_length (dd ! i) mod chunk_length (dd ! i) \<noteq> 0
                      then dim_length (dd ! i) mod chunk_length (dd ! i)
                      else chunk_length (dd ! i)))"
    using r l by blast
  have a: "HMCcreate_geometry scenario_A_pdims [0..<2] (replicate 2 create_dim_rec) 1 1
           = Some (scenario_A_ddims, 9, 100)"
    by code_simp
  have b: "compute_array_to_seek [9, 9] 1 2 scenario_A_ddims = Some 99"
    by code_simp
  have c: "update_chunk_indices_seek 99 2 1 [0, 0] [0, 0] scenario_A_ddims = Some ([2, 2], [1, 1])"
    by code_simp
  have e: "calculate_chunk_num 2 [2, 2] scenario_A_ddims = Some 8"
    by code_simp
  from general a b c e show ?thesis by (intro conjI)
qed

theorem HMCcreate_geometry_derived_witness:
  "length scenario_A_pdims = 2
   \<and> (\<exists>dd np data_len.
         HMCcreate_geometry scenario_A_pdims [0..<2] (replicate 2 create_dim_rec) 1 1
           = Some (dd, np, data_len)
       \<and> num_chunks (dd ! 1) =
            \<lceil>real_of_int (dim_length (dd ! 1)) / real_of_int (chunk_length (dd ! 1))\<rceil>
       \<and> last_chunk_length (dd ! 1) = dim_length (dd ! 1) mod chunk_length (dd ! 1))"
proof -
  have h: "length scenario_A_pdims = 2" "length (replicate 2 create_dim_rec) = 2"
    "\<forall>pd\<in>set scenario_A_pdims. 0 < p_chunk_length pd \<and> 0 \<le> p_dim_length pd"
    by (simp_all add: scenario_A_pdims_def)
  have s: "HMCcreate_geometry scenario_A_pdims [0..<2] (replicate 2 create_dim_rec) 1 1
           = Some (scenario_A_ddims, 9, 100)"
    using HMCcreate_geometry_derived[OF h] by simp
  from HMCcreate_geometry_derived[OF h] obtain dd np data_len where
    "HMCcreate_geometry scenario_A_pdims [0..<2] (replicate 2 create_dim_rec) 1 1
           = Some (dd, np, data_len)"
    and "num_chunks (dd ! 1) =
            \<lceil>real_of_int (dim_length (dd ! 1)) / real_of_int (chunk_length (dd ! 1))\<rceil>"
    and "last_chunk_length (dd ! 1) =
            (if dim_length (dd ! 1) mod chunk_length (dd ! 1) \<noteq> 0
             then dim_length (dd ! 1) mod chunk_length (dd ! 1)
             else chunk_length (dd ! 1))"
    by force
  moreover from this(1) s have "dd = scenario_A_ddims" by simp
  ultimately show ?thesis using h(1) by (auto simp: scenario_A_ddims_def)
qed

section \<open>The created element\<close>

lemma scenario_elt_created:
  "HMCcreate scenario_file 4 [0, 0, 0, 0] scenario_def = Inr scenario_elt"
  by (simp add: HMCcreate_def scenario_file_def scenario_def_def scenario_elt_def BADFREC_def
      DFACC_WRITE_def scenario_A_pdims_def scenario_A_ddims_def create_dim_rec_def
      HMCcreate_dim_def mcache_open_def numeral_2_eq_2 Let_def)

section \<open>Seek\<close>







section \<open>Write with a length that is not positive\<close>

text \<open>
  Claim C10. A write of a length that is zero or negative fails with \<^verbatim>\<open>DFE_RANGE\<close>
  and returns the access record as it was: no byte is moved, and the position, the
  directory, the cache and the file are unchanged. A length of 0 is not read as
  \<open>to the logical end\<close>, as it is in \<^verbatim>\<open>HMCPread\<close>.
\<close>

theorem HMCPwrite_nonpositive_length:
  assumes "len \<le> 0"
  shows "HMCPwrite fuel access_rec len datap = (Inl DFE_RANGE, access_rec)"
  using assms by (simp add: HMCPwrite_def)

theorem HMCPwrite_nonpositive_length_witness:
  "HMCPwrite 100 scenario_elt 0 [1, 2, 3] = (Inl DFE_RANGE, scenario_elt)
   \<and> HMCPwrite 100 scenario_elt (- 5) [1, 2, 3] = (Inl DFE_RANGE, scenario_elt)"
  using HMCPwrite_nonpositive_length[of 0 100 scenario_elt "[1, 2, 3]"]
    HMCPwrite_nonpositive_length[of "- 5" 100 scenario_elt "[1, 2, 3]"]
  by simp

section \<open>Page-in of a chunk that was never written\<close>

lemma HDmemfill_eq:
  assumes f: "0 < fl" "fl < 2 ^ 31" and src: "int (length src) = fl"
    and n: "0 \<le> n" "n < 2 ^ 31" and fit: "n * fl \<le> int (length dest)"
  shows "HDmemfill dest src fl n =
           Some (concat (replicate (nat n) src) @ drop (nat n * nat fl) dest)"
proof -
  have a: "fl mod 2 ^ 32 = fl" "n mod 2 ^ 32 = n" using f n by simp_all
  have l: "length src = nat fl" using src by simp
  have "nat n * nat fl \<le> length dest"
    using fit f n by (metis nat_int nat_mono nat_mult_distrib)
  then show ?thesis using f n l by (auto simp: HDmemfill_def a Let_def)
qed

text \<open>
  Claim C4. For a chunk number with no entry in the directory index, a fill value of
  \<open>fill_val_len\<close> bytes and a page buffer of \<open>chunk_size * nt_size\<close> bytes,
  \<^verbatim>\<open>HMCPchunkread\<close> returns 0 bytes read and the fill value repeated
  \<open>(chunk_size * nt_size) div fill_val_len\<close> times at the start of the buffer, the rest of
  the buffer as it was; that is the whole buffer when \<open>fill_val_len\<close> divides its size.
  The access record comes back unchanged: no call reaches the object store. With a fill
  value of four zero bytes, 16 elements in a chunk and 4 bytes in an element the buffer is
  64 zero bytes.
\<close>

theorem HMCPchunkread_unallocated:
  assumes none: "chk_tree (special_info access_rec) chunk_num = None"
    and f: "0 < fill_val_len (special_info access_rec)" "fill_val_len (special_info access_rec) < 2 ^ 31"
    and fv: "int (length (fill_val (special_info access_rec))) = fill_val_len (special_info access_rec)"
    and sz: "chunk_size (special_info access_rec) * nt_size (special_info access_rec) < 2 ^ 31"
    and buf: "int (length datap) = chunk_size (special_info access_rec) * nt_size (special_info access_rec)"
  shows "HMCPchunkread access_rec chunk_num datap =
           (Inr 0,
            concat (replicate
                      (nat (chunk_size (special_info access_rec) * nt_size (special_info access_rec)
                              div fill_val_len (special_info access_rec)))
                      (fill_val (special_info access_rec)))
            @ drop (nat (chunk_size (special_info access_rec) * nt_size (special_info access_rec)
                           div fill_val_len (special_info access_rec))
                      * nat (fill_val_len (special_info access_rec))) datap,
            access_rec)
       \<and> (fill_val_len (special_info access_rec)
              dvd chunk_size (special_info access_rec) * nt_size (special_info access_rec) \<longrightarrow>
            HMCPchunkread access_rec chunk_num datap =
              (Inr 0,
               concat (replicate
                         (nat (chunk_size (special_info access_rec) * nt_size (special_info access_rec)
                                 div fill_val_len (special_info access_rec)))
                         (fill_val (special_info access_rec))),
               access_rec))
       \<and> HMCPchunkread scenario_elt 8 (replicate 64 255) = (Inr 0, replicate 64 0, scenario_elt)"
proof -
  let ?info = "special_info access_rec"
  let ?L = "chunk_size ?info * nt_size ?info" and ?fl = "fill_val_len ?info"
  let ?n = "?L div ?fl"
  have L0: "0 \<le> ?L" using buf by (metis of_nat_0_le_iff)
  have n0: "0 \<le> ?n" using L0 f by (simp add: pos_imp_zdiv_nonneg_iff)
  have dm: "?L = ?n * ?fl + ?L mod ?fl" by simp
  have "0 \<le> ?L mod ?fl" using f by simp
  with dm have nfl: "?n * ?fl \<le> ?L" by linarith
  have "?n * 1 \<le> ?n * ?fl" using n0 f by (intro mult_left_mono) auto
  with nfl have nle: "?n \<le> ?L" by simp
  have fit: "?n * ?fl \<le> int (length datap)" using nfl buf by simp
  have sd: "?L sdiv ?fl = ?n" using L0 f by (simp add: sdiv_nonneg)
  have m: "HDmemfill datap (fill_val ?info) ?fl ?n =
           Some (concat (replicate (nat ?n) (fill_val ?info)) @ drop (nat ?n * nat ?fl) datap)"
    using f fv n0 nle sz fit by (intro HDmemfill_eq) auto
  have main: "HMCPchunkread access_rec chunk_num datap =
           (Inr 0, concat (replicate (nat ?n) (fill_val ?info)) @ drop (nat ?n * nat ?fl) datap,
            access_rec)"
    using none f m by (simp add: HMCPchunkread_def HMCPchunkread_fill_def Let_def sd)
  have whole: "drop (nat ?n * nat ?fl) datap = []" if d: "?fl dvd ?L"
  proof -
    have "?n * ?fl = ?L" using d by simp
    then have "nat ?n * nat ?fl = nat ?L" using n0 f by (metis nat_mult_distrib)
    then show ?thesis using buf by simp
  qed
  have c64: "concat (replicate 16 [0, 0, 0, 0]) = replicate 64 (0::uint8)" by code_simp
  have scen: "HMCPchunkread scenario_elt 8 (replicate 64 255) = (Inr 0, replicate 64 0, scenario_elt)"
    by (simp add: HMCPchunkread_def HMCPchunkread_fill_def scenario_elt_def HDmemfill_def Let_def
        c64)
  show ?thesis using main whole scen by simp
qed

theorem HMCPchunkread_unallocated_witness:
  "HMCPchunkread scenario_elt 3 (replicate 64 7) = (Inr 0, concat (replicate 16 [0, 0, 0, 0]), scenario_elt)
   \<and> length (concat (replicate 16 [0, 0, 0, (0::uint8)])) = 64"
proof -
  have h: "chk_tree (special_info scenario_elt) 3 = None"
    "0 < fill_val_len (special_info scenario_elt)" "fill_val_len (special_info scenario_elt) < 2 ^ 31"
    "int (length (fill_val (special_info scenario_elt))) = fill_val_len (special_info scenario_elt)"
    "chunk_size (special_info scenario_elt) * nt_size (special_info scenario_elt) < 2 ^ 31"
    "int (length (replicate 64 (7::uint8))) = chunk_size (special_info scenario_elt) * nt_size (special_info scenario_elt)"
    by (simp_all add: scenario_elt_def)
  have d: "fill_val_len (special_info scenario_elt)
             dvd chunk_size (special_info scenario_elt) * nt_size (special_info scenario_elt)"
    by (simp add: scenario_elt_def)
  have e: "nat (chunk_size (special_info scenario_elt) * nt_size (special_info scenario_elt)
                  div fill_val_len (special_info scenario_elt)) = 16"
    "fill_val (special_info scenario_elt) = [0, 0, 0, 0]"
    by (simp_all add: scenario_elt_def)
  from HMCPchunkread_unallocated[OF h] d
  have "HMCPchunkread scenario_elt 3 (replicate 64 7) =
          (Inr 0, concat (replicate
                         (nat (chunk_size (special_info scenario_elt) * nt_size (special_info scenario_elt)
                                 div fill_val_len (special_info scenario_elt)))
                         (fill_val (special_info scenario_elt))), scenario_elt)"
    by blast
  moreover have "length (concat (replicate 16 [0, 0, 0, (0::uint8)])) = 64" by code_simp
  ultimately show ?thesis unfolding e by simp
qed

section \<open>What the cache leaves unchanged\<close>

lemma cache_frame_refl [simp]: "cache_frame ar ar"
  by (simp add: cache_frame_def)



lemma cache_frame_file [simp]: "cache_frame ar (ar\<lparr>file_rec := f\<rparr>)"
  by (simp add: cache_frame_def)

lemma cache_frame_note_call [simp]: "cache_frame ar (note_call ev ar)"
  by (simp add: note_call_def)










section \<open>Read\<close>










lemma length_concat_replicate [simp]: "length (concat (replicate n xs)) = n * length xs"
  by (induction n) auto




section \<open>The raw form of the SZIP adapter\<close>






lemma length_INT32ENCODE: "length (INT32ENCODE n) = 4"
  by (simp add: INT32ENCODE_def)

text \<open>The calls on the object store, on a medium that does not fail.\<close>

lemma stored_length_ok:
  assumes "elements f aid = Some e" and "\<forall>n. \<not> faults f n"
  shows "\<exists>f1. stored_length f aid = (Some (int (length e)), f1)
           \<and> elements f1 = elements f \<and> faults f1 = faults f"
  using assms
  by (simp add: stored_length_def Hstartread_def Hendaccess_def store_call_def)

lemma memcpy_into_Some:
  assumes "0 \<le> off" and "off + int (length bytes) \<le> int (length dest)"
  shows "memcpy_into dest off bytes
       = Some (take (nat off) dest @ bytes @ drop (nat off + length bytes) dest)"
  using assms by (simp add: memcpy_into_def)

lemma memcpy_into_length:
  assumes "memcpy_into dest off bytes = Some dest'"
  shows "length dest' = length dest"
  using assms by (auto simp: memcpy_into_def split: if_splits)

lemma drop_preamble:
  assumes "length enc = 4"
  shows "drop (k + 5) (x # enc @ xs) = drop k xs"
proof -
  have "k + 5 = Suc (k + 4)" by simp
  thus ?thesis using assms by (simp only: drop_Suc_Cons) simp
qed


lemma raw_form_eq:
  assumes "0 \<le> pos" and "pos \<le> int (length b)" and "pos + 5 \<le> int (length ob)"
  shows "raw_form ob pos b
       = Some (1 # INT32ENCODE pos @ take (nat pos) b @ drop (nat pos + 5) ob)"
proof -
  have src: "memcpy_from b 0 pos = Some (take (nat pos) b)"
    using assms by (simp add: memcpy_from_def)
  have l5: "length (1 # INT32ENCODE pos) = 5"
    by (simp add: length_INT32ENCODE)
  have h: "memcpy_into ob 0 (1 # INT32ENCODE pos) = Some (1 # INT32ENCODE pos @ drop 5 ob)"
    using assms l5 by (subst memcpy_into_Some) auto
  have lt: "length (take (nat pos) b) = nat pos"
    using assms by simp
  have lo: "length (1 # INT32ENCODE pos @ drop 5 ob) = length ob"
    using assms l5 by simp
  have "memcpy_into (1 # INT32ENCODE pos @ drop 5 ob) 5 (take (nat pos) b)
      = Some (take (nat 5) (1 # INT32ENCODE pos @ drop 5 ob) @ take (nat pos) b
              @ drop (nat 5 + length (take (nat pos) b)) (1 # INT32ENCODE pos @ drop 5 ob))"
  proof (rule memcpy_into_Some)
    show "(0::int) \<le> 5" by simp
    show "5 + int (length (take (nat pos) b)) \<le> int (length (1 # INT32ENCODE pos @ drop 5 ob))"
      unfolding lt lo using assms by simp
  qed
  moreover have "take (nat 5) (1 # INT32ENCODE pos @ drop 5 ob) = 1 # INT32ENCODE pos"
    by (simp add: length_INT32ENCODE)
  moreover have "drop (nat 5 + length (take (nat pos) b)) (1 # INT32ENCODE pos @ drop 5 ob)
      = drop (nat pos + 5) ob"
    unfolding lt using drop_preamble [OF length_INT32ENCODE, of "nat pos" 1 pos "drop 5 ob"]
    by (simp add: add.commute)
  ultimately have d: "memcpy_into (1 # INT32ENCODE pos @ drop 5 ob) 5 (take (nat pos) b)
      = Some (1 # INT32ENCODE pos @ take (nat pos) b @ drop (nat pos + 5) ob)"
    by simp
  show ?thesis
    by (simp add: raw_form_def src h d)
qed

lemma Hwrite_ok:
  assumes "elements f aid = Some e" and "\<forall>n. \<not> faults f n"
    and "0 < len" and "len \<le> int (length buf)"
  shows "\<exists>f'. Hwrite f aid len buf = (True, f')
          \<and> elements f' aid = Some (take (nat len) buf @ drop (nat len) e)"
  using assms by (simp add: Hwrite_def store_call_def)



text \<open>
  When szlib reports \<^verbatim>\<open>SZ_OUTBUF_FULL\<close> (status 2), \<^verbatim>\<open>HCIcszip_term\<close> builds the raw
  form in its buffer and frees the buffer: it returns \<^verbatim>\<open>SUCCEED\<close> and no element of the
  store has changed.
\<close>

lemma HCIcszip_term_overflow:
  assumes env: "have_szip_encoder env"
    and st: "szip_state (szip_info info) = SZIP_RUN" "szip_dirty (szip_info info) = SZIP_DIRTY"
    and aid: "comp_aid info = Some aid" "elements f aid = Some e"
    and nf: "\<forall>n. \<not> faults f n"
    and b: "szip_buffer (szip_info info) = Some b"
    and pos: "0 \<le> buffer_pos (szip_info info)" "buffer_pos (szip_info info) \<le> int (length b)"
      "buffer_pos (szip_info info) \<le> pixels (szip_info info) * bytes_per_pixel (szip_info info)"
    and comp: "SZ_BufftoBuffCompress env (take (nat (buffer_pos (szip_info info))) b)
                 (max 1024 (pixels (szip_info info) * 2 * bytes_per_pixel (szip_info info) + 5) - 5)
                 \<lparr>sz_options_mask = options_mask (szip_info info),
                  sz_bits_per_pixel = bits_per_pixel (szip_info info),
                  sz_pixels_per_block = pixels_per_block (szip_info info),
                  sz_pixels_per_scanline = pixels_per_scanline (szip_info info)\<rparr>
               = (SZ_OUTBUF_FULL, size_out, dest)"
    and fits: "int (length dest) + 5
                 \<le> max 1024 (pixels (szip_info info) * 2 * bytes_per_pixel (szip_info info) + 5)"
  shows "\<exists>f' info'. HCIcszip_term env f info = (Inr SUCCEED, f', info')
           \<and> elements f' = elements f"
proof -
  let ?s = "szip_info info"
  let ?pos = "buffer_pos ?s"
  let ?obs = "max 1024 (pixels ?s * 2 * bytes_per_pixel ?s + 5)"
  obtain f1 where f1: "stored_length f aid = (Some (int (length e)), f1)"
      "elements f1 = elements f" "faults f1 = faults f"
    using stored_length_ok [OF aid(2) nf] by blast
  have src: "memcpy_from b 0 ?pos = Some (take (nat ?pos) b)"
    using pos by (simp add: memcpy_from_def)
  have lm: "int (length (0 # drop (Suc 0) (malloc_block env ?obs))) = ?obs"
    by (simp add: malloc_block_def)
  have "\<not> ?obs < 5 + int (length dest)"
    using fits by linarith
  hence "memcpy_into (0 # drop (Suc 0) (malloc_block env ?obs)) 5 dest \<noteq> None"
    unfolding memcpy_into_def lm by simp
  then obtain ob0 where ob0m: "memcpy_into (0 # drop (Suc 0) (malloc_block env ?obs)) 5 dest = Some ob0"
    by blast
  have ob0: "int (length ob0) = ?obs"
    using memcpy_into_length [OF ob0m] lm by simp
  have "0 \<le> pixels ?s * bytes_per_pixel ?s" using pos by linarith
  hence fit2: "?pos + 5 \<le> int (length ob0)" using pos ob0 by linarith
  have rf: "raw_form ob0 ?pos b
      = Some (1 # INT32ENCODE ?pos @ take (nat ?pos) b @ drop (nat ?pos + 5) ob0)"
    using pos fit2 by (intro raw_form_eq) auto
  have "HCIcszip_term env f info
      = (Inr SUCCEED, f1,
         info\<lparr>szip_info := free_if_empty (?s\<lparr>szip_state := SZIP_TERM, szip_dirty := SZIP_CLEAN\<rparr>)\<rparr>)"
    using env st aid(1) b
    by (simp add: HCIcszip_term_def Let_def f1 src comp ob0m rf SZ_OK_def SZ_OUTBUF_FULL_def)
  thus ?thesis using f1(2) by simp
qed






end
